theory Spec2Isabelle
  imports Complex_Main
begin

section \<open>Data model\<close>

text \<open>
  The spawn lifecycle of the bot lives in two service classes,
  \<^verbatim>\<open>SpawnService\<close> (bot/services/spawn_service.py) and \<^verbatim>\<open>RawSQLSpawnService\<close>
  (bot/services/fast_spawn_service.py), in the manual spawn handler
  (bot/handlers/spawn.py) and in the scheduler (bot/services/scheduler_service.py).

  Timestamps (\<^verbatim>\<open>datetime\<close> values and the database's \<^verbatim>\<open>NOW()\<close>) are integers counting
  microseconds. Every clock reading, every random draw and every generated identifier is
  an input of the function that makes it, collected in an environment record.

  A store that does not answer (connection lost, pool exhausted) is the flag \<open>..._db_up\<close> of
  the environment set to \<open>False\<close>: each service method wraps its body in
  \<^verbatim>\<open>try/except Exception\<close>, and a capture runs inside one transaction, so a raising store
  call returns the method's error value and leaves the tables as they were. The
  uniqueness constraints on \<^verbatim>\<open>spawns.spawn_id\<close> and \<^verbatim>\<open>pokemon.pokemon_id\<close>
  (bot/models/sql_models.py) are written out: an insert that repeats an identifier raises.

  Whether the store accepts the statements that record a capture depends on the tables
  it holds, and is the input \<open>ce_write_ok\<close> of a capture attempt. On the tables that the
  repository itself defines it is \<open>False\<close>: the \<^verbatim>\<open>pokemon\<close> table of
  bot/models/sql_models.py has no \<^verbatim>\<open>created_at\<close> column and its \<^verbatim>\<open>users\<close> table no \<^verbatim>\<open>level\<close>
  column; the \<^verbatim>\<open>pokemon\<close> table of fix_pokemon_collection.py types \<^verbatim>\<open>pokemon_id\<close> as a UUID,
  which no \<^verbatim>\<open>poke_...\<close> identifier is; setup_ultra_fast_db.py and fix_database_fast.py
  create no \<^verbatim>\<open>pokemon\<close> table. There an insert of the capture raises, the transaction is
  rolled back, and the attempt returns its error value with nothing written.
\<close>

record spawn_row =
  row_id :: "int option" \<comment> \<open>the \<^verbatim>\<open>id\<close> column; \<open>None\<close> on a \<^verbatim>\<open>Spawn\<close> object built in Python\<close>
  spawn_id :: string
  chat_id :: int
  species :: string
  species_id :: int
  level :: int
  is_shiny :: bool
  rarity :: string
  spawned_at :: int
  expires_at :: int
  is_caught :: bool
  caught_by :: "int option"
  caught_at :: "int option"

text \<open>
  A row of the \<^verbatim>\<open>pokemon\<close> table. A column that an insert statement does not name is
  \<open>None\<close> (left to the column's default).
\<close>

record pokemon_row =
  p_pokemon_id :: string
  p_owner_id :: int
  p_species :: string
  p_species_id :: int
  p_level :: int
  p_experience :: "int option"
  p_hp :: int
  p_attack :: int
  p_defense :: int
  p_special_attack :: int
  p_special_defense :: int
  p_speed :: int
  p_nature :: string
  p_ability :: string
  p_is_shiny :: bool
  p_rarity :: string
  p_gender :: "string option"
  p_created_at :: "int option"
  p_caught_at :: "int option"
  p_in_team :: "bool option"

record user_row =
  u_username :: string
  u_first_name :: string
  u_coins :: int
  u_experience :: int
  u_level :: int
  u_pokemon_caught :: int
  u_total_pokemon :: int

text \<open>
  The durable store: the three tables the spawn code touches. The \<^verbatim>\<open>id\<close> that the
  autoincrement primary key of \<^verbatim>\<open>spawns\<close> gives a new row is an input of the insert.
\<close>

record db =
  spawns :: "spawn_row list"
  pokemon :: "pokemon_row list"
  users :: "int \<rightharpoonup> user_row"

text \<open>\<^verbatim>\<open>timedelta(minutes=m)\<close> in microseconds.\<close>

definition timedelta_minutes :: "int \<Rightarrow> int" where
  "timedelta_minutes m = m * 60 * 1000000"

text \<open>What a capture attempt reports: the second component of the returned pair.\<close>

datatype catch_msg =
    SpawnNotFound \<comment> \<open>"Spawn not found"\<close>
  | AlreadyCaught \<comment> \<open>"This Pokemon has already been caught!" / "Already caught by someone else!"\<close>
  | Fled \<comment> \<open>"This Pokemon has fled!"\<close>
  | BrokeFree \<comment> \<open>"The Pokemon broke free!"\<close>
  | CaughtId string \<comment> \<open>the new pokemon_id\<close>
  | CatchError \<comment> \<open>"An error occurred while catching" / "Catch failed!"\<close>
  | Disappeared \<comment> \<open>"This Pokemon has disappeared!"\<close>
  | Escaped string \<comment> \<open>"<species> escaped! Try again!"\<close>
  | CaughtMsg string int int \<comment> \<open>"Caught <species>! (+<exp> EXP (+<coins> coins))"\<close>

text \<open>The environment of one capture attempt.\<close>

record catch_env =
  ce_db_up :: bool
  ce_roll :: real \<comment> \<open>\<^verbatim>\<open>random.random()\<close>\<close>
  ce_now :: int \<comment> \<open>the clock at the expiry test\<close>
  ce_caught_at :: int \<comment> \<open>the clock at the update of the spawn row\<close>
  ce_created_at :: int \<comment> \<open>the clock at the insert of the pokemon row\<close>
  ce_pokemon_id :: string \<comment> \<open>the generated identifier of the new pokemon row\<close>
  ce_write_ok :: bool \<comment> \<open>the tables of the store accept the statements of a capture\<close>

section \<open>Store statements\<close>

text \<open>\<^verbatim>\<open>SELECT ... FROM spawns WHERE spawn_id = $1\<close>, first row.\<close>

definition fetch_spawn :: "db \<Rightarrow> string \<Rightarrow> spawn_row option" where
  "fetch_spawn d sid = find (\<lambda>r. spawn_id r = sid) (spawns d)"

text \<open>\<^verbatim>\<open>SELECT ... FROM spawns WHERE spawn_id = $1 AND expires_at > NOW()\<close>, first row.\<close>

definition fetch_unexpired_spawn :: "db \<Rightarrow> string \<Rightarrow> int \<Rightarrow> spawn_row option" where
  "fetch_unexpired_spawn d sid now =
     find (\<lambda>r. spawn_id r = sid \<and> expires_at r > now) (spawns d)"

text \<open>\<^verbatim>\<open>UPDATE spawns SET is_caught = TRUE, caught_by = $2, caught_at = $3 WHERE spawn_id = $1\<close>\<close>

definition mark_caught :: "string \<Rightarrow> int \<Rightarrow> int \<Rightarrow> spawn_row list \<Rightarrow> spawn_row list" where
  "mark_caught sid uid t rows =
     map (\<lambda>r. if spawn_id r = sid
               then r\<lparr>is_caught := True, caught_by := Some uid, caught_at := Some t\<rparr>
               else r) rows"

text \<open>The uniqueness constraint of \<^verbatim>\<open>pokemon.pokemon_id\<close>.\<close>

definition pokemon_id_taken :: "db \<Rightarrow> string \<Rightarrow> bool" where
  "pokemon_id_taken d pid = (pid \<in> set (map p_pokemon_id (pokemon d)))"

text \<open>The uniqueness constraint of \<^verbatim>\<open>spawns.spawn_id\<close>.\<close>

definition spawn_id_taken :: "db \<Rightarrow> string \<Rightarrow> bool" where
  "spawn_id_taken d sid = (sid \<in> set (map spawn_id (spawns d)))"

section \<open>SpawnService.catch_spawn\<close>

text \<open>
  \<^verbatim>\<open>catch_rate = 0.95 if rarity == "common" else 0.90 if rarity == "rare" else 0.85\<close>
\<close>

definition catch_rate :: "string \<Rightarrow> real" where
  "catch_rate r = (if r = ''common'' then 95 / 100 else if r = ''rare'' then 90 / 100 else 85 / 100)"

text \<open>The pokemon row that \<^verbatim>\<open>SpawnService.catch_spawn\<close> inserts.\<close>

definition new_pokemon :: "catch_env \<Rightarrow> spawn_row \<Rightarrow> int \<Rightarrow> pokemon_row" where
  "new_pokemon env row uid =
     \<lparr>p_pokemon_id = ce_pokemon_id env, p_owner_id = uid, p_species = species row,
      p_species_id = species_id row, p_level = level row, p_experience = Some 0,
      p_hp = level row * 2 + 100, p_attack = level row * 2 + 50,
      p_defense = level row * 2 + 50, p_special_attack = level row * 2 + 50,
      p_special_defense = level row * 2 + 50, p_speed = level row * 2 + 50,
      p_nature = ''hardy'', p_ability = ''unknown'', p_is_shiny = is_shiny row,
      p_rarity = rarity row, p_gender = Some ''unknown'',
      p_created_at = Some (ce_created_at env), p_caught_at = None,
      p_in_team = Some False\<rparr>"

text \<open>
  \<^verbatim>\<open>UPDATE users SET pokemon_caught = pokemon_caught + 1, total_pokemon = total_pokemon + 1,
  experience = experience + $2 WHERE user_id = $1\<close>: no row, no change.
\<close>

definition add_catch_stats :: "int \<Rightarrow> int \<Rightarrow> (int \<rightharpoonup> user_row) \<Rightarrow> (int \<rightharpoonup> user_row)" where
  "add_catch_stats uid xp us =
     (case us uid of
        None \<Rightarrow> us
      | Some u \<Rightarrow> us(uid \<mapsto> u\<lparr>u_pokemon_caught := u_pokemon_caught u + 1,
                                u_total_pokemon := u_total_pokemon u + 1,
                                u_experience := u_experience u + xp\<rparr>))"

definition SpawnService_catch_spawn ::
  "catch_env \<Rightarrow> db \<Rightarrow> string \<Rightarrow> int \<Rightarrow> (bool \<times> catch_msg) \<times> db" where
  "SpawnService_catch_spawn env d sid uid =
     (if \<not> ce_db_up env then ((False, CatchError), d)
      else case fetch_spawn d sid of
        None \<Rightarrow> ((False, SpawnNotFound), d)
      | Some row \<Rightarrow>
          if is_caught row then ((False, AlreadyCaught), d)
          else if expires_at row < ce_now env then ((False, Fled), d)
          else if ce_roll env > catch_rate (rarity row) then ((False, BrokeFree), d)
          else if \<not> ce_write_ok env \<or> pokemon_id_taken d (ce_pokemon_id env)
               then ((False, CatchError), d)
          else ((True, CaughtId (ce_pokemon_id env)),
                d\<lparr>spawns := mark_caught sid uid (ce_caught_at env) (spawns d),
                  pokemon := pokemon d @ [new_pokemon env row uid],
                  users := add_catch_stats uid (level row * 10) (users d)\<rparr>))"

section \<open>RawSQLSpawnService\<close>

text \<open>
  An entry of \<^verbatim>\<open>_spawn_cache\<close>, a Python dict. The entries that \<^verbatim>\<open>create_spawn\<close> writes have
  no \<^verbatim>\<open>species_id\<close>, \<^verbatim>\<open>spawned_at\<close> or \<^verbatim>\<open>image_url\<close> key; every reader of \<^verbatim>\<open>image_url\<close>
  uses \<^verbatim>\<open>.get\<close>, so a missing key and the value \<^verbatim>\<open>None\<close> are both \<open>None\<close> here.
\<close>

record spawn_data =
  sd_spawn_id :: string
  sd_species :: string
  sd_species_id :: "int option"
  sd_level :: int
  sd_is_shiny :: bool
  sd_rarity :: string
  sd_spawned_at :: "int option"
  sd_image_url :: "string option"

record fast_state =
  fdb :: db
  spawn_cache :: "int \<rightharpoonup> spawn_data"

subsection \<open>catch_spawn\<close>

text \<open>
  The whole method runs in one transaction, so every \<^verbatim>\<open>NOW()\<close> in it is the one
  timestamp \<open>ce_now\<close>.
\<close>

definition fast_new_pokemon :: "catch_env \<Rightarrow> spawn_row \<Rightarrow> int \<Rightarrow> pokemon_row" where
  "fast_new_pokemon env row uid =
     \<lparr>p_pokemon_id = ce_pokemon_id env, p_owner_id = uid, p_species = species row,
      p_species_id = species_id row, p_level = level row, p_experience = None,
      p_hp = level row * 3 + 50, p_attack = level row * 2 + 30,
      p_defense = level row * 2 + 30, p_special_attack = level row * 2 + 30,
      p_special_defense = level row * 2 + 30, p_speed = level row * 2 + 30,
      p_nature = ''hardy'', p_ability = ''unknown'', p_is_shiny = is_shiny row,
      p_rarity = rarity row, p_gender = None,
      p_created_at = None, p_caught_at = Some (ce_now env),
      p_in_team = None\<rparr>"

text \<open>
  \<^verbatim>\<open>INSERT INTO users (...) VALUES ($1, 'trainer', 'Unknown', 1000, 0, 1, 0, 0)
  ON CONFLICT (user_id) DO NOTHING\<close>
\<close>

definition ensure_user :: "int \<Rightarrow> (int \<rightharpoonup> user_row) \<Rightarrow> (int \<rightharpoonup> user_row)" where
  "ensure_user uid us =
     (case us uid of
        Some u \<Rightarrow> us
      | None \<Rightarrow> us(uid \<mapsto> \<lparr>u_username = ''trainer'', u_first_name = ''Unknown'',
                              u_coins = 1000, u_experience = 0, u_level = 1,
                              u_pokemon_caught = 0, u_total_pokemon = 0\<rparr>))"

text \<open>
  \<^verbatim>\<open>UPDATE users SET pokemon_caught = pokemon_caught + 1, total_pokemon = total_pokemon + 1,
  experience = experience + $2, coins = coins + $3 WHERE user_id = $1\<close>
\<close>

definition fast_add_catch_stats ::
  "int \<Rightarrow> int \<Rightarrow> int \<Rightarrow> (int \<rightharpoonup> user_row) \<Rightarrow> (int \<rightharpoonup> user_row)" where
  "fast_add_catch_stats uid xp coins us =
     (case us uid of
        None \<Rightarrow> us
      | Some u \<Rightarrow> us(uid \<mapsto> u\<lparr>u_pokemon_caught := u_pokemon_caught u + 1,
                                u_total_pokemon := u_total_pokemon u + 1,
                                u_experience := u_experience u + xp,
                                u_coins := u_coins u + coins\<rparr>))"

definition RawSQL_catch_spawn ::
  "catch_env \<Rightarrow> fast_state \<Rightarrow> string \<Rightarrow> int \<Rightarrow> (bool \<times> catch_msg) \<times> fast_state" where
  "RawSQL_catch_spawn env st sid uid =
     (if \<not> ce_db_up env then ((False, CatchError), st)
      else case fetch_unexpired_spawn (fdb st) sid (ce_now env) of
        None \<Rightarrow> ((False, Disappeared), st)
      | Some row \<Rightarrow>
          if is_caught row then ((False, AlreadyCaught), st)
          else if ce_roll env > 2 / 100 then
            (if \<not> ce_write_ok env \<or> pokemon_id_taken (fdb st) (ce_pokemon_id env)
             then ((False, CatchError), st)
             else
               let exp_gained = level row * 10;
                   coins_earned = level row * 5 + (if is_shiny row then 100 else 0);
                   d = fdb st
               in ((True, CaughtMsg (species row) exp_gained coins_earned),
                   st\<lparr>fdb := d\<lparr>spawns := mark_caught sid uid (ce_now env) (spawns d),
                                 pokemon := pokemon d @ [fast_new_pokemon env row uid],
                                 users := fast_add_catch_stats uid exp_gained coins_earned
                                            (ensure_user uid (users d))\<rparr>,
                      spawn_cache := (spawn_cache st)(chat_id row := None)\<rparr>))
          else ((False, Escaped (species row)), st))"

subsection \<open>create_spawn\<close>

text \<open>
  The names \<^verbatim>\<open>random.choice(self._pokemon_names)\<close> draws from.
\<close>

definition pokemon_names :: "string list" where
  "pokemon_names =
     [''pikachu'', ''charizard'', ''blastoise'', ''venusaur'', ''mewtwo'', ''mew'',
      ''lugia'', ''ho-oh'', ''celebi'', ''kyogre'', ''groudon'', ''rayquaza'',
      ''dialga'', ''palkia'', ''giratina'', ''arceus'', ''reshiram'', ''zekrom'',
      ''squirtle'', ''bulbasaur'', ''charmander'', ''eevee'', ''vaporeon'',
      ''jolteon'', ''flareon'', ''espeon'', ''umbreon'', ''leafeon'', ''glaceon'',
      ''sylveon'', ''lucario'', ''garchomp'', ''dragonite'', ''tyranitar'',
      ''salamence'', ''metagross'', ''latios'', ''latias'', ''darkrai'', ''cresselia'']"

record fast_create_env =
  fc_db_up :: bool
  fc_now_check :: int \<comment> \<open>\<^verbatim>\<open>NOW()\<close> of the query for an active spawn\<close>
  fc_species_name :: string \<comment> \<open>\<^verbatim>\<open>random.choice(self._pokemon_names)\<close>\<close>
  fc_species_id :: int \<comment> \<open>\<^verbatim>\<open>random.randint(1, 800)\<close>\<close>
  fc_level :: int \<comment> \<open>\<^verbatim>\<open>random.randint(1, 50)\<close>\<close>
  fc_shiny_roll :: real \<comment> \<open>\<^verbatim>\<open>random.random()\<close>\<close>
  fc_rarity_choice :: string \<comment> \<open>\<^verbatim>\<open>random.choice(['common', 'uncommon', 'rare'])\<close>\<close>
  fc_spawn_id :: string \<comment> \<open>the generated \<^verbatim>\<open>spawn_<seconds>_<4 digits>\<close>\<close>
  fc_utcnow :: int \<comment> \<open>\<^verbatim>\<open>datetime.utcnow()\<close> read for \<^verbatim>\<open>expires_at\<close>\<close>
  fc_now_insert :: int \<comment> \<open>\<^verbatim>\<open>NOW()\<close> of the insert, stored as \<^verbatim>\<open>spawned_at\<close>\<close>
  fc_row_id :: int \<comment> \<open>the \<^verbatim>\<open>id\<close> the store gives the new row\<close>

text \<open>
  \<^verbatim>\<open>SELECT id FROM spawns WHERE chat_id = $1 AND is_caught = false AND expires_at > NOW()\<close>
  through \<^verbatim>\<open>fetchval\<close>: the \<^verbatim>\<open>id\<close> of the first such row, or \<^verbatim>\<open>None\<close>.
\<close>

definition active_spawn_id :: "db \<Rightarrow> int \<Rightarrow> int \<Rightarrow> int option" where
  "active_spawn_id d chat now =
     (case find (\<lambda>r. chat_id r = chat \<and> \<not> is_caught r \<and> expires_at r > now) (spawns d) of
        None \<Rightarrow> None
      | Some r \<Rightarrow> row_id r)"

text \<open>Python's truth value of an optional integer: \<^verbatim>\<open>None\<close> and \<^verbatim>\<open>0\<close> are false.\<close>

definition truthy_int :: "int option \<Rightarrow> bool" where
  "truthy_int v = (case v of None \<Rightarrow> False | Some i \<Rightarrow> i \<noteq> 0)"

text \<open>\<^verbatim>\<open>is_shiny = random.random() < 0.005\<close>\<close>

definition fast_shiny :: "fast_create_env \<Rightarrow> bool" where
  "fast_shiny env = (fc_shiny_roll env < 5 / 1000)"

text \<open>\<^verbatim>\<open>rarity = 'legendary' if is_shiny else random.choice(['common', 'uncommon', 'rare'])\<close>\<close>

definition fast_rarity :: "fast_create_env \<Rightarrow> string" where
  "fast_rarity env = (if fast_shiny env then ''legendary'' else fc_rarity_choice env)"

text \<open>The row that the insert of \<^verbatim>\<open>create_spawn\<close> adds to \<^verbatim>\<open>spawns\<close>.\<close>

definition fast_new_spawn :: "fast_create_env \<Rightarrow> int \<Rightarrow> spawn_row" where
  "fast_new_spawn env chat =
     \<lparr>row_id = Some (fc_row_id env), spawn_id = fc_spawn_id env,
      chat_id = chat, species = fc_species_name env,
      species_id = fc_species_id env, level = fc_level env,
      is_shiny = fast_shiny env, rarity = fast_rarity env,
      spawned_at = fc_now_insert env,
      expires_at = fc_utcnow env + timedelta_minutes 10,
      is_caught = False, caught_by = None, caught_at = None\<rparr>"

text \<open>The dict that \<^verbatim>\<open>create_spawn\<close> stores in \<^verbatim>\<open>_spawn_cache\<close>.\<close>

definition fast_cache_entry :: "fast_create_env \<Rightarrow> spawn_data" where
  "fast_cache_entry env =
     \<lparr>sd_spawn_id = fc_spawn_id env, sd_species = fc_species_name env,
      sd_species_id = None, sd_level = fc_level env,
      sd_is_shiny = fast_shiny env, sd_rarity = fast_rarity env,
      sd_spawned_at = None, sd_image_url = None\<rparr>"

definition RawSQL_create_spawn ::
  "fast_create_env \<Rightarrow> fast_state \<Rightarrow> int \<Rightarrow> bool \<times> fast_state" where
  "RawSQL_create_spawn env st chat =
     (if \<not> fc_db_up env then (False, st)
      else if truthy_int (active_spawn_id (fdb st) chat (fc_now_check env)) then (False, st)
      else if spawn_id_taken (fdb st) (fc_spawn_id env) then (False, st)
      else (True,
            st\<lparr>fdb := (fdb st)\<lparr>spawns := spawns (fdb st) @ [fast_new_spawn env chat]\<rparr>,
               spawn_cache := (spawn_cache st)(chat \<mapsto> fast_cache_entry env)\<rparr>))"

subsection \<open>get_active_spawn\<close>

text \<open>
  \<^verbatim>\<open>pokeapi.get_pokemon_sprite_url(species_id, shiny)\<close> is the function \<open>ga_sprite\<close>; a
  call that raises is caught by the bare \<^verbatim>\<open>except\<close> and gives \<^verbatim>\<open>None\<close>, as a missing
  sprite does.
\<close>

record get_env =
  ga_db_up :: bool
  ga_now :: int \<comment> \<open>\<^verbatim>\<open>NOW()\<close> of the query\<close>
  ga_sprite :: "int \<Rightarrow> bool \<Rightarrow> string option"

text \<open>
  \<^verbatim>\<open>ORDER BY spawned_at DESC LIMIT 1\<close>: a row with the greatest \<^verbatim>\<open>spawned_at\<close>; among
  equal ones (SQL leaves the choice open) the first in the table.
\<close>

fun latest_spawn :: "spawn_row list \<Rightarrow> spawn_row option" where
  "latest_spawn [] = None"
| "latest_spawn (r # rs) =
     (case latest_spawn rs of
        None \<Rightarrow> Some r
      | Some r' \<Rightarrow> if spawned_at r' > spawned_at r then Some r' else Some r)"

text \<open>
  \<^verbatim>\<open>SELECT ... FROM spawns WHERE chat_id = $1 AND is_caught = false AND expires_at > NOW()
  ORDER BY spawned_at DESC LIMIT 1\<close>
\<close>

definition fetch_active_spawn :: "db \<Rightarrow> int \<Rightarrow> int \<Rightarrow> spawn_row option" where
  "fetch_active_spawn d chat now =
     latest_spawn (filter (\<lambda>r. chat_id r = chat \<and> \<not> is_caught r \<and> expires_at r > now) (spawns d))"

definition RawSQL_get_active_spawn ::
  "get_env \<Rightarrow> fast_state \<Rightarrow> int \<Rightarrow> spawn_data option \<times> fast_state" where
  "RawSQL_get_active_spawn env st chat =
     (case spawn_cache st chat of
        Some cached \<Rightarrow>
          let cached' = cached\<lparr>sd_image_url :=
                 ga_sprite env (case sd_species_id cached of None \<Rightarrow> 1 | Some i \<Rightarrow> i)
                               (sd_is_shiny cached)\<rparr>
          in (Some cached', st\<lparr>spawn_cache := (spawn_cache st)(chat \<mapsto> cached')\<rparr>)
      | None \<Rightarrow>
          if \<not> ga_db_up env then (None, st)
          else (case fetch_active_spawn (fdb st) chat (ga_now env) of
            None \<Rightarrow> (None, st)
          | Some row \<Rightarrow>
              let spawn_data = \<lparr>sd_spawn_id = spawn_id row, sd_species = species row,
                                 sd_species_id = Some (species_id row), sd_level = level row,
                                 sd_is_shiny = is_shiny row, sd_rarity = rarity row,
                                 sd_spawned_at = Some (spawned_at row),
                                 sd_image_url = ga_sprite env (species_id row) (is_shiny row)\<rparr>
              in (Some spawn_data, st\<lparr>spawn_cache := (spawn_cache st)(chat \<mapsto> spawn_data)\<rparr>)))"

section \<open>SpawnService.create_spawn\<close>

text \<open>
  What the catalog (PokeAPI) answers for a species: a JSON object, here the list of its
  keys and values. Only the value under \<^verbatim>\<open>name\<close> is read, and only a string can be stored
  in the \<^verbatim>\<open>species\<close> column.
\<close>

datatype jvalue = JString string | JOther

type_synonym pokemon_data = "(string \<times> jvalue) list"

text \<open>
  Python's truth value of an optional dict: \<^verbatim>\<open>None\<close> and \<^verbatim>\<open>{}\<close> are false.
  \<open>truthy_dict v\<close> is the dict when \<open>v\<close> is true, \<open>None\<close> when it is false.
\<close>

definition truthy_dict :: "pokemon_data option \<Rightarrow> pokemon_data option" where
  "truthy_dict v = (case v of None \<Rightarrow> None | Some d \<Rightarrow> if d = [] then None else Some d)"

text \<open>
  The service object: \<^verbatim>\<open>_pokemon_cache\<close> and \<^verbatim>\<open>_last_cache_clear\<close>
  (\<^verbatim>\<open>_species_cache\<close> is cleared and never written or read).
\<close>

record svc_state =
  pokemon_cache :: "int \<rightharpoonup> pokemon_data"
  last_cache_clear :: int

text \<open>
  \<^verbatim>\<open>random.randint(a, b)\<close>, as a function of what the generator draws: an integer from
  \<open>a\<close> to \<open>b\<close>, and each of them for some draw.
\<close>

definition randint :: "int \<Rightarrow> int \<Rightarrow> nat \<Rightarrow> int" where
  "randint a b draw = a + int draw mod (b - a + 1)"

record create_env =
  cr_db_up :: bool
  cr_clear_check :: int \<comment> \<open>\<^verbatim>\<open>utcnow()\<close> in the test of \<^verbatim>\<open>_clear_cache_if_needed\<close>\<close>
  cr_clear_set :: int \<comment> \<open>\<^verbatim>\<open>utcnow()\<close> stored as \<^verbatim>\<open>_last_cache_clear\<close>\<close>
  cr_now_check :: int \<comment> \<open>\<^verbatim>\<open>utcnow()\<close> passed to the query for an active spawn\<close>
  cr_species_draw :: nat \<comment> \<open>the draw of \<^verbatim>\<open>random.randint(1, 1010)\<close>\<close>
  cr_level_draw :: nat \<comment> \<open>the draw of \<^verbatim>\<open>random.randint(1, 50)\<close>\<close>
  cr_shiny_roll :: real \<comment> \<open>\<^verbatim>\<open>random.random()\<close>\<close>
  cr_fallback_draw :: nat \<comment> \<open>the draw of \<^verbatim>\<open>random.randint(1, 151)\<close>\<close>
  cr_api_first :: "int \<Rightarrow> pokemon_data option" \<comment> \<open>the catalog at the first lookup\<close>
  cr_api_retry :: "int \<Rightarrow> pokemon_data option" \<comment> \<open>the catalog at the fallback lookup\<close>
  cr_spawn_id :: string \<comment> \<open>\<^verbatim>\<open>generate_id("spawn_")\<close>\<close>
  cr_now :: int \<comment> \<open>\<^verbatim>\<open>now = datetime.utcnow()\<close>\<close>
  cr_row_id :: int \<comment> \<open>the \<^verbatim>\<open>id\<close> the store gives the new row\<close>

text \<open>
  \<^verbatim>\<open>timedelta.seconds\<close>: the seconds within the day of a normalised timedelta,
  between 0 and 86399 also for a negative difference.
\<close>

definition timedelta_seconds :: "int \<Rightarrow> int" where
  "timedelta_seconds us = (us div 1000000) mod 86400"

definition clear_cache_if_needed :: "create_env \<Rightarrow> svc_state \<Rightarrow> svc_state" where
  "clear_cache_if_needed env sv =
     (if timedelta_seconds (cr_clear_check env - last_cache_clear sv) > 1800
      then sv\<lparr>pokemon_cache := Map.empty, last_cache_clear := cr_clear_set env\<rparr>
      else sv)"

definition get_cached_pokemon_data ::
  "(int \<Rightarrow> pokemon_data option) \<Rightarrow> svc_state \<Rightarrow> int \<Rightarrow> pokemon_data option \<times> svc_state" where
  "get_cached_pokemon_data api sv sid =
     (case pokemon_cache sv sid of
        Some cached \<Rightarrow> (Some cached, sv)
      | None \<Rightarrow>
          let data = api sid
          in (case truthy_dict data of
                Some pd \<Rightarrow> (data, sv\<lparr>pokemon_cache := (pokemon_cache sv)(sid \<mapsto> pd)\<rparr>)
              | None \<Rightarrow> (data, sv)))"

text \<open>\<^verbatim>\<open>SELECT 1 FROM spawns WHERE chat_id = $1 AND is_caught = FALSE AND expires_at > $2 LIMIT 1\<close>\<close>

definition has_active_spawn :: "db \<Rightarrow> int \<Rightarrow> int \<Rightarrow> bool" where
  "has_active_spawn d chat now =
     (find (\<lambda>r. chat_id r = chat \<and> \<not> is_caught r \<and> expires_at r > now) (spawns d) \<noteq> None)"

text \<open>
  The last part of \<^verbatim>\<open>create_spawn\<close>, from \<^verbatim>\<open>species_name = pokemon_data['name']\<close> on, with
  the species and its catalog data settled. A missing \<^verbatim>\<open>name\<close> raises \<^verbatim>\<open>KeyError\<close>, a name
  that is not a string is refused by the insert, and so is a repeated \<^verbatim>\<open>spawn_id\<close>: the
  method's \<^verbatim>\<open>except\<close> returns \<^verbatim>\<open>None\<close> for each. \<open>new_spawn\<close> is the \<^verbatim>\<open>Spawn\<close> object
  returned; the inserted row has the same columns and the \<^verbatim>\<open>id\<close> the store gives it.
\<close>

definition new_spawn :: "create_env \<Rightarrow> int \<Rightarrow> int \<Rightarrow> string \<Rightarrow> spawn_row" where
  "new_spawn env chat sid species_name =
     \<lparr>row_id = None, spawn_id = cr_spawn_id env, chat_id = chat,
      species = species_name, species_id = sid,
      level = randint 1 50 (cr_level_draw env),
      is_shiny = (cr_shiny_roll env < 2 / 1000),
      rarity = (if cr_shiny_roll env < 2 / 1000 then ''rare'' else ''common''),
      spawned_at = cr_now env,
      expires_at = cr_now env + timedelta_minutes 8,
      is_caught = False, caught_by = None, caught_at = None\<rparr>"

definition persist_spawn ::
  "create_env \<Rightarrow> svc_state \<Rightarrow> db \<Rightarrow> int \<Rightarrow> int \<Rightarrow> pokemon_data
     \<Rightarrow> spawn_row option \<times> svc_state \<times> db" where
  "persist_spawn env sv d chat sid pdata =
     (case map_of pdata ''name'' of
        Some (JString species_name) \<Rightarrow>
          if spawn_id_taken d (cr_spawn_id env) then (None, sv, d)
          else (Some (new_spawn env chat sid species_name), sv,
                d\<lparr>spawns := spawns d @
                     [(new_spawn env chat sid species_name)\<lparr>row_id := Some (cr_row_id env)\<rparr>]\<rparr>)
      | _ \<Rightarrow> (None, sv, d))"

text \<open>
  The middle of \<^verbatim>\<open>create_spawn\<close> ("Get cached species name"): look the drawn species up,
  and when the answer is false look up a second one drawn from 1 to 151. The result is the
  species kept and its data, or \<open>None\<close> when both lookups gave nothing.
\<close>

definition pick_species ::
  "create_env \<Rightarrow> svc_state \<Rightarrow> (int \<times> pokemon_data) option \<times> svc_state" where
  "pick_species env sv =
     (let species_id = randint 1 1010 (cr_species_draw env);
          (pokemon_data, sv1) = get_cached_pokemon_data (cr_api_first env) sv species_id
      in case truthy_dict pokemon_data of
           Some pd \<Rightarrow> (Some (species_id, pd), sv1)
         | None \<Rightarrow>
             let species_id2 = randint 1 151 (cr_fallback_draw env);
                 (pokemon_data2, sv2) =
                   get_cached_pokemon_data (cr_api_retry env) sv1 species_id2
             in (case truthy_dict pokemon_data2 of
                   Some pd2 \<Rightarrow> (Some (species_id2, pd2), sv2)
                 | None \<Rightarrow> (None, sv2)))"

definition SpawnService_create_spawn ::
  "create_env \<Rightarrow> svc_state \<Rightarrow> db \<Rightarrow> int \<Rightarrow> spawn_row option \<times> svc_state \<times> db" where
  "SpawnService_create_spawn env sv0 d chat =
     (let sv = clear_cache_if_needed env sv0
      in if \<not> cr_db_up env then (None, sv, d)
         else if has_active_spawn d chat (cr_now_check env) then (None, sv, d)
         else (case pick_species env sv of
                 (None, sv') \<Rightarrow> (None, sv', d)
               | (Some (sid, pd), sv') \<Rightarrow> persist_spawn env sv' d chat sid pd))"

section \<open>Purging expired spawns\<close>

text \<open>
  \<^verbatim>\<open>SpawnService.cleanup_expired_spawns\<close>: delete the rows with \<^verbatim>\<open>is_caught == False\<close> and
  \<^verbatim>\<open>expires_at < utcnow()\<close>, and return their number. A store failure returns 0.
\<close>

definition cleanup_expired_spawns :: "bool \<Rightarrow> int \<Rightarrow> db \<Rightarrow> nat \<times> db" where
  "cleanup_expired_spawns db_up now d =
     (if \<not> db_up then (0, d)
      else (length (filter (\<lambda>r. \<not> is_caught r \<and> expires_at r < now) (spawns d)),
            d\<lparr>spawns := filter (\<lambda>r. \<not> (\<not> is_caught r \<and> expires_at r < now)) (spawns d)\<rparr>))"

text \<open>
  \<^verbatim>\<open>RawSQLSpawnService.cleanup_expired\<close>: the same delete, then the whole spawn cache is
  cleared.
\<close>

definition cleanup_expired :: "bool \<Rightarrow> int \<Rightarrow> fast_state \<Rightarrow> nat \<times> fast_state" where
  "cleanup_expired db_up now st =
     (if \<not> db_up then (0, st)
      else (length (filter (\<lambda>r. expires_at r < now \<and> \<not> is_caught r) (spawns (fdb st))),
            st\<lparr>fdb := (fdb st)\<lparr>spawns :=
                     filter (\<lambda>r. \<not> (expires_at r < now \<and> \<not> is_caught r)) (spawns (fdb st))\<rparr>,
               spawn_cache := Map.empty\<rparr>))"

section \<open>The manual spawn handler\<close>

text \<open>Python's \<^verbatim>\<open>str\<close> of an integer, for the key \<^verbatim>\<open>f"spawn_{user.id}"\<close>.\<close>

fun str_nat :: "nat \<Rightarrow> string" where
  "str_nat n =
     (if n < 10 then [''0123456789'' ! n]
      else str_nat (n div 10) @ [''0123456789'' ! (n mod 10)])"

definition str_int :: "int \<Rightarrow> string" where
  "str_int i = (if i < 0 then CHR ''-'' # str_nat (nat (- i)) else str_nat (nat i))"

definition cooldown_key :: "int \<Rightarrow> string" where
  "cooldown_key uid = ''spawn_'' @ str_int uid"

text \<open>\<^verbatim>\<open>is_admin\<close> of bot/utils/helpers.py: \<^verbatim>\<open>user_id in settings.ADMIN_IDS\<close>.\<close>

definition is_admin :: "int list \<Rightarrow> int \<Rightarrow> bool" where
  "is_admin admin_ids uid = (uid \<in> set admin_ids)"

text \<open>Python's \<^verbatim>\<open>int\<close> of a float: truncation towards zero.\<close>

definition py_int :: "real \<Rightarrow> int" where
  "py_int x = (if x \<ge> 0 then \<lfloor>x\<rfloor> else \<lceil>x\<rceil>)"

text \<open>
  The cooldown step of \<^verbatim>\<open>spawn_handler\<close> (the block under "Simple cooldown (non-admins
  only)"). \<^verbatim>\<open>user_cooldowns\<close> is the module's dict from keys to \<^verbatim>\<open>time.time()\<close> readings,
  which are real numbers here. The step either answers with the cooldown message, which
  carries the remaining seconds, and the handler returns, or lets the handler go on.
\<close>

datatype verdict = CooldownActive int | Proceed

definition cooldown_check ::
  "int list \<Rightarrow> (string \<rightharpoonup> real) \<Rightarrow> int \<Rightarrow> real \<Rightarrow> verdict \<times> (string \<rightharpoonup> real)" where
  "cooldown_check admin_ids user_cooldowns uid now =
     (if \<not> is_admin admin_ids uid then
        (case user_cooldowns (cooldown_key uid) of
           Some prev \<Rightarrow>
             if now - prev < 30
             then (CooldownActive (30 - py_int (now - prev)), user_cooldowns)
             else (Proceed, user_cooldowns(cooldown_key uid \<mapsto> now))
         | None \<Rightarrow> (Proceed, user_cooldowns(cooldown_key uid \<mapsto> now)))
      else (Proceed, user_cooldowns))"

subsection \<open>The handler over the process state\<close>

text \<open>
  The scheduler object (\<^verbatim>\<open>FastSchedulerService\<close>): the set of registered channels and the
  \<^verbatim>\<open>running\<close> flag.
\<close>

record scheduler =
  active_channels :: "int set"
  running :: bool

definition register_channel :: "int \<Rightarrow> scheduler \<Rightarrow> scheduler" where
  "register_channel chat sc = sc\<lparr>active_channels := insert chat (active_channels sc)\<rparr>"

definition unregister_channel :: "int \<Rightarrow> scheduler \<Rightarrow> scheduler" where
  "unregister_channel chat sc = sc\<lparr>active_channels := active_channels sc - {chat}\<rparr>"

text \<open>
  The process state the handler and the scheduler share: the scheduler object, the module
  dict \<^verbatim>\<open>user_cooldowns\<close> and the \<^verbatim>\<open>fast_spawn_service\<close> object with the store behind it.
\<close>

record bot =
  sched :: scheduler
  cooldowns :: "string \<rightharpoonup> real"
  fast :: fast_state

text \<open>The message \<^verbatim>\<open>spawn_handler\<close> answers with, by its heading.\<close>

datatype reply =
    CooldownReply int \<comment> \<open>"Spawn Cooldown Active", with the remaining seconds\<close>
  | WildSpotted spawn_data \<comment> \<open>"Wild Pokemon Spotted!"\<close>
  | SpawnFailed \<comment> \<open>"Spawn Failed"\<close>
  | SpawnCreationError \<comment> \<open>"Spawn Creation Error"\<close>
  | SpawnedReply spawn_data \<comment> \<open>"Pokemon Spawned Successfully!"\<close>

record handler_env =
  he_admin_ids :: "int list" \<comment> \<open>\<^verbatim>\<open>settings.ADMIN_IDS\<close>\<close>
  he_time :: real \<comment> \<open>\<^verbatim>\<open>time.time()\<close>\<close>
  he_get :: get_env \<comment> \<open>the environment of the first \<^verbatim>\<open>get_active_spawn\<close>\<close>
  he_create :: fast_create_env
  he_get_created :: get_env \<comment> \<open>the environment of the second \<^verbatim>\<open>get_active_spawn\<close>\<close>

text \<open>
  \<^verbatim>\<open>spawn_handler\<close> for the user \<open>uid\<close> in the chat \<open>chat\<close>. Sending the answer is taken to
  succeed.
\<close>

definition spawn_handler :: "handler_env \<Rightarrow> bot \<Rightarrow> int \<Rightarrow> int \<Rightarrow> reply \<times> bot" where
  "spawn_handler env b0 uid chat =
     (let b = b0\<lparr>sched := register_channel chat (sched b0)\<rparr>
      in case cooldown_check (he_admin_ids env) (cooldowns b) uid (he_time env) of
           (CooldownActive remaining, cd) \<Rightarrow> (CooldownReply remaining, b\<lparr>cooldowns := cd\<rparr>)
         | (Proceed, cd) \<Rightarrow>
             (case RawSQL_get_active_spawn (he_get env) (fast b) chat of
                (Some active, f1) \<Rightarrow> (WildSpotted active, b\<lparr>cooldowns := cd, fast := f1\<rparr>)
              | (None, f1) \<Rightarrow>
                  (case RawSQL_create_spawn (he_create env) f1 chat of
                     (False, f2) \<Rightarrow> (SpawnFailed, b\<lparr>cooldowns := cd, fast := f2\<rparr>)
                   | (True, f2) \<Rightarrow>
                       (case RawSQL_get_active_spawn (he_get_created env) f2 chat of
                          (None, f3) \<Rightarrow> (SpawnCreationError, b\<lparr>cooldowns := cd, fast := f3\<rparr>)
                        | (Some spawn, f3) \<Rightarrow>
                            (SpawnedReply spawn, b\<lparr>cooldowns := cd, fast := f3\<rparr>)))))"

section \<open>The scheduler loop\<close>

text \<open>
  One pass of \<^verbatim>\<open>_spawn_loop\<close> over its body, and what the outside does to it meanwhile.
  \<open>le_raises\<close>: a statement of the body raises an \<^verbatim>\<open>Exception\<close>; the statement that can is
  the deferred import of the spawn service, which precedes the spawn attempt
  (\<^verbatim>\<open>create_spawn\<close> has its own \<^verbatim>\<open>except Exception\<close> and raises none).
  \<open>le_cancelled\<close>: the asyncio task of the loop is cancelled while the pass sleeps; \<^verbatim>\<open>CancelledError\<close> is not an
  \<^verbatim>\<open>Exception\<close>, so it leaves the loop.
\<close>

record loop_env =
  le_raises :: bool
  le_cancelled :: bool
  le_pick :: int \<comment> \<open>\<^verbatim>\<open>random.choice(channels_list)\<close>\<close>
  le_create :: fast_create_env
  le_interval :: int \<comment> \<open>\<^verbatim>\<open>random.randint(30, 60)\<close>\<close>

text \<open>What the loop does that can be seen from outside: its sleeps and its log lines.\<close>

datatype action =
    Sleep int \<comment> \<open>\<^verbatim>\<open>await asyncio.sleep(seconds)\<close>\<close>
  | LogSpawned int \<comment> \<open>"Auto-spawned in channel ..."\<close>
  | LogLoopError \<comment> \<open>"Spawn loop error: ..."\<close>

definition spawn_iteration :: "loop_env \<Rightarrow> bot \<Rightarrow> action list \<times> bot" where
  "spawn_iteration e b =
     (if active_channels (sched b) = {} then ([Sleep 5], b)
      else if le_raises e then ([LogLoopError, Sleep 10], b)
      else case RawSQL_create_spawn (le_create e) (fast b) (le_pick e) of
             (success, f) \<Rightarrow>
               ((if success then [LogSpawned (le_pick e)] else []) @ [Sleep (le_interval e)],
                b\<lparr>fast := f\<rparr>))"

text \<open>
  How a run of the loop ends: the \<^verbatim>\<open>while\<close> test found \<^verbatim>\<open>running\<close> false, its asyncio task
  was cancelled, or neither happened during the passes considered and the loop is about
  to make another.
\<close>

datatype loop_end = Stopped | Cancelled | Continuing

text \<open>
  \<^verbatim>\<open>_spawn_loop\<close> over the environments of its successive passes: the actions in order, how
  the run ends, and the state then.
\<close>

fun spawn_loop :: "loop_env list \<Rightarrow> bot \<Rightarrow> action list \<times> loop_end \<times> bot" where
  "spawn_loop [] b = ([], if running (sched b) then Continuing else Stopped, b)"
| "spawn_loop (e # es) b =
     (if \<not> running (sched b) then ([], Stopped, b)
      else case spawn_iteration e b of
             (acts, b1) \<Rightarrow>
               if le_cancelled e then (acts, Cancelled, b1)
               else (case spawn_loop es b1 of
                       (acts2, fin, b2) \<Rightarrow> (acts @ acts2, fin, b2)))"

text \<open>The sleeps among the actions of a run.\<close>

fun is_sleep :: "action \<Rightarrow> bool" where
  "is_sleep (Sleep n) = True"
| "is_sleep a = False"

section \<open>Example states\<close>

text \<open>
  A store with one spawn in chat 7, open until time 1000; the same store after user 9
  caught it; an attempt with a given roll at a given time, on tables that refuse the
  statements of a capture; a service with an empty cache.
\<close>

definition wild_row :: spawn_row where
  "wild_row =
     \<lparr>row_id = Some 1, spawn_id = ''spawn_1'', chat_id = 7, species = ''pikachu'',
      species_id = 25, level = 5, is_shiny = False, rarity = ''common'', spawned_at = 0,
      expires_at = 1000, is_caught = False, caught_by = None, caught_at = None\<rparr>"

definition caught_row :: spawn_row where
  "caught_row = wild_row\<lparr>is_caught := True, caught_by := Some 9, caught_at := Some 100\<rparr>"

definition wild_db :: db where
  "wild_db = \<lparr>spawns = [wild_row], pokemon = [], users = Map.empty\<rparr>"

definition caught_db :: db where
  "caught_db = \<lparr>spawns = [caught_row], pokemon = [], users = Map.empty\<rparr>"

definition empty_db :: db where
  "empty_db = \<lparr>spawns = [], pokemon = [], users = Map.empty\<rparr>"

definition attempt :: "real \<Rightarrow> int \<Rightarrow> catch_env" where
  "attempt roll now =
     \<lparr>ce_db_up = True, ce_roll = roll, ce_now = now, ce_caught_at = now,
      ce_created_at = now, ce_pokemon_id = ''poke_1'', ce_write_ok = False\<rparr>"

definition uncached :: "db \<Rightarrow> fast_state" where
  "uncached d = \<lparr>fdb = d, spawn_cache = Map.empty\<rparr>"

text \<open>
  A catalog that knows species 25 only; a \<open>SpawnService\<close> with an empty cache; a
  creation in \<open>SpawnService\<close> at a given time, with the draws that make
  \<^verbatim>\<open>randint(1, 1010)\<close> and \<^verbatim>\<open>randint(1, 151)\<close> give the two species named; a creation in
  \<open>RawSQLSpawnService\<close> at a given time.
\<close>

definition catalog :: "int \<Rightarrow> pokemon_data option" where
  "catalog i = (if i = 25 then Some [(''name'', JString ''pikachu'')] else None)"

definition fresh_svc :: svc_state where
  "fresh_svc = \<lparr>pokemon_cache = Map.empty, last_cache_clear = 0\<rparr>"

definition creation :: "int \<Rightarrow> int \<Rightarrow> int \<Rightarrow> create_env" where
  "creation now roll fallback =
     \<lparr>cr_db_up = True, cr_clear_check = now, cr_clear_set = now, cr_now_check = now,
      cr_species_draw = nat (roll - 1), cr_level_draw = 11, cr_shiny_roll = 1 / 2,
      cr_fallback_draw = nat (fallback - 1), cr_api_first = catalog, cr_api_retry = catalog,
      cr_spawn_id = ''spawn_2'', cr_now = now, cr_row_id = 2\<rparr>"

definition fast_creation :: "int \<Rightarrow> fast_create_env" where
  "fast_creation now =
     \<lparr>fc_db_up = True, fc_now_check = now, fc_species_name = ''eevee'',
      fc_species_id = 133, fc_level = 12, fc_shiny_roll = 1 / 2,
      fc_rarity_choice = ''uncommon'', fc_spawn_id = ''spawn_2'', fc_utcnow = now,
      fc_now_insert = now, fc_row_id = 2\<rparr>"

text \<open>A read of the active spawn at a given time, with a catalog without sprites.\<close>

definition reading :: "int \<Rightarrow> get_env" where
  "reading now = \<lparr>ga_db_up = True, ga_now = now, ga_sprite = (\<lambda>i s. None)\<rparr>"

text \<open>
  A process in which nothing has happened yet, over the store \<open>wild_db\<close>; a manual
  spawn request at a given \<^verbatim>\<open>time.time()\<close> with a given list of admins.
\<close>

definition quiet_bot :: bot where
  "quiet_bot =
     \<lparr>sched = \<lparr>active_channels = {}, running = True\<rparr>, cooldowns = Map.empty,
      fast = uncached wild_db\<rparr>"

definition request :: "int list \<Rightarrow> real \<Rightarrow> handler_env" where
  "request admins t =
     \<lparr>he_admin_ids = admins, he_time = t, he_get = reading 500,
      he_create = fast_creation 500, he_get_created = reading 500\<rparr>"

text \<open>
  A running scheduler with chat 7 registered; a pass of its loop that is not cancelled,
  in which the body raises or not and the store responds or not.
\<close>

definition listening_bot :: bot where
  "listening_bot = quiet_bot\<lparr>sched := \<lparr>active_channels = {7}, running = True\<rparr>\<rparr>"

definition pass :: "bool \<Rightarrow> bool \<Rightarrow> loop_env" where
  "pass raises store_up =
     \<lparr>le_raises = raises, le_cancelled = False, le_pick = 7,
      le_create = (fast_creation 500)\<lparr>fc_db_up := store_up\<rparr>, le_interval = 45\<rparr>"

section \<open>Verified properties\<close>

subsection \<open>Capture attempts that change nothing\<close>

lemma find_expired_none:
  assumes "\<forall>r\<in>set rows. spawn_id r = sid \<longrightarrow> expires_at r < now"
  shows "find (\<lambda>r. spawn_id r = sid \<and> expires_at r > now) rows = None"
  using assms by (auto simp: find_None_iff)

lemma find_expired_some:
  assumes "\<forall>r\<in>set rows. spawn_id r = sid \<longrightarrow> expires_at r < now"
    and "find (\<lambda>r. spawn_id r = sid) rows = Some row"
  shows "expires_at row < now"
  using assms by (auto simp: find_Some_iff)

lemma SpawnService_catch_expired:
  assumes "\<forall>r\<in>set (spawns d). spawn_id r = sid \<longrightarrow> expires_at r < ce_now env"
  shows "snd (SpawnService_catch_spawn env d sid uid) = d
       \<and> fst (fst (SpawnService_catch_spawn env d sid uid)) = False
       \<and> snd (fst (SpawnService_catch_spawn env d sid uid))
            \<in> {CatchError, SpawnNotFound, AlreadyCaught, Fled}"
proof (cases "fetch_spawn d sid")
  case None
  then show ?thesis by (simp add: SpawnService_catch_spawn_def)
next
  case (Some row)
  with assms have "expires_at row < ce_now env"
    unfolding fetch_spawn_def by (rule find_expired_some)
  with Some show ?thesis by (simp add: SpawnService_catch_spawn_def)
qed

lemma RawSQL_catch_expired:
  assumes "\<forall>r\<in>set (spawns (fdb st)). spawn_id r = sid \<longrightarrow> expires_at r < ce_now env"
  shows "RawSQL_catch_spawn env st sid uid =
           ((False, if ce_db_up env then Disappeared else CatchError), st)"
proof -
  from assms have "fetch_unexpired_spawn (fdb st) sid (ce_now env) = None"
    unfolding fetch_unexpired_spawn_def by (rule find_expired_none)
  then show ?thesis by (simp add: RawSQL_catch_spawn_def)
qed

lemma cleanup_expired_spawns_subset:
  "set (spawns (snd (cleanup_expired_spawns up t d))) \<subseteq> set (spawns d)"
  by (auto simp: cleanup_expired_spawns_def)

lemma cleanup_expired_subset:
  "set (spawns (fdb (snd (cleanup_expired up t st)))) \<subseteq> set (spawns (fdb st))"
  by (auto simp: cleanup_expired_def)

text \<open>
  C2 (expiry hard stop). When every stored row with the given \<open>spawn_id\<close> has an
  \<open>expires_at\<close> before the current time, a capture attempt returns a failure and writes
  nothing, in both services, whatever the roll and whether or not the store responds;
  and the same holds after a purge of the expired rows has run (at any time \<open>t\<close>), when
  the row may be gone.
\<close>

theorem expired_spawn_never_captured:
  assumes "\<forall>r\<in>set (spawns d). spawn_id r = sid \<longrightarrow> expires_at r < ce_now env"
    and "fdb st = d"
  shows "(\<forall>d' \<in> {d, snd (cleanup_expired_spawns up t d)}.
            snd (SpawnService_catch_spawn env d' sid uid) = d'
          \<and> fst (fst (SpawnService_catch_spawn env d' sid uid)) = False
          \<and> snd (fst (SpawnService_catch_spawn env d' sid uid))
               \<in> {CatchError, SpawnNotFound, AlreadyCaught, Fled})
       \<and> (\<forall>st' \<in> {st, snd (cleanup_expired up t st)}.
            RawSQL_catch_spawn env st' sid uid =
              ((False, if ce_db_up env then Disappeared else CatchError), st'))"
proof -
  have a: "\<forall>r\<in>set (spawns (snd (cleanup_expired_spawns up t d))).
             spawn_id r = sid \<longrightarrow> expires_at r < ce_now env"
    using assms(1) cleanup_expired_spawns_subset [of up t d] by blast
  have b: "\<forall>r\<in>set (spawns (fdb st)). spawn_id r = sid \<longrightarrow> expires_at r < ce_now env"
    using assms by simp
  have c: "\<forall>r\<in>set (spawns (fdb (snd (cleanup_expired up t st)))).
             spawn_id r = sid \<longrightarrow> expires_at r < ce_now env"
    using b cleanup_expired_subset [of up t st] by blast
  show ?thesis
    using SpawnService_catch_expired [OF assms(1)] SpawnService_catch_expired [OF a]
      RawSQL_catch_expired [OF b] RawSQL_catch_expired [OF c]
    by simp
qed

theorem expired_spawn_never_captured_witness:
  "expires_at wild_row < ce_now (attempt (1/2) 2000)
   \<and> SpawnService_catch_spawn (attempt (1/2) 2000) wild_db ''spawn_1'' 42
       = ((False, Fled), wild_db)
   \<and> RawSQL_catch_spawn (attempt (1/2) 2000) (uncached wild_db) ''spawn_1'' 42
       = ((False, Disappeared), uncached wild_db)
   \<and> SpawnService_catch_spawn (attempt (1/2) 2000)
        (snd (cleanup_expired_spawns True 1500 wild_db)) ''spawn_1'' 42
       = ((False, SpawnNotFound), empty_db)"
  using expired_spawn_never_captured [of wild_db "''spawn_1''" "attempt (1/2) 2000"
      "uncached wild_db" True 1500 42]
  by (simp add: wild_db_def wild_row_def attempt_def uncached_def empty_db_def
      SpawnService_catch_spawn_def fetch_spawn_def cleanup_expired_spawns_def)

subsection \<open>Attempts on a spawn that is already caught\<close>

lemma find_unique:
  assumes "distinct (map spawn_id rows)"
    and "find (\<lambda>r. spawn_id r = sid) rows = Some row"
  shows "find (\<lambda>r. spawn_id r = sid \<and> P r) rows = (if P row then Some row else None)"
  using assms
proof (induction rows)
  case Nil
  then show ?case by simp
next
  case (Cons a rows)
  show ?case
  proof (cases "spawn_id a = sid")
    case True
    with Cons.prems have ar: "a = row" by simp
    from Cons.prems True have "sid \<notin> spawn_id ` set rows" by simp
    then have "\<forall>r\<in>set rows. spawn_id r \<noteq> sid" by blast
    then have "find (\<lambda>r. spawn_id r = sid \<and> P r) rows = None"
      by (auto simp: find_None_iff)
    with True ar show ?thesis by simp
  next
    case False
    with Cons show ?thesis by simp
  qed
qed

lemma fetch_unexpired_unique:
  assumes "distinct (map spawn_id (spawns d))" and "fetch_spawn d sid = Some row"
  shows "fetch_unexpired_spawn d sid now = (if expires_at row > now then Some row else None)"
  using assms unfolding fetch_spawn_def fetch_unexpired_spawn_def by (rule find_unique)

text \<open>
  C7 (loser atomicity), as the code has it. For a spawn whose \<open>is_caught\<close> flag is set, a capture
  attempt returns a failure and leaves the whole state as it was: the spawn rows, the
  pokemon rows, the user rows and the spawn cache. While the store responds,
  \<open>SpawnService.catch_spawn\<close> reports "already caught"; \<open>RawSQLSpawnService.catch_spawn\<close>
  reports "already caught" when the spawn's \<open>expires_at\<close> is still ahead, and
  "disappeared" when it is not, because its query leaves expired rows out before the
  flag is looked at. The store keeps \<open>spawn_id\<close> unique.
\<close>

theorem caught_spawn_attempt_changes_nothing:
  assumes "fetch_spawn d sid = Some row"
    and "is_caught row"
    and "distinct (map spawn_id (spawns d))"
    and "fdb st = d"
  shows "SpawnService_catch_spawn env d sid uid =
           ((False, if ce_db_up env then AlreadyCaught else CatchError), d)
       \<and> RawSQL_catch_spawn env st sid uid =
           ((False, if \<not> ce_db_up env then CatchError
                    else if expires_at row > ce_now env then AlreadyCaught
                    else Disappeared), st)"
proof -
  have a: "SpawnService_catch_spawn env d sid uid =
           ((False, if ce_db_up env then AlreadyCaught else CatchError), d)"
    using assms(1,2) by (simp add: SpawnService_catch_spawn_def)
  have "fetch_unexpired_spawn (fdb st) sid (ce_now env)
          = (if expires_at row > ce_now env then Some row else None)"
    using fetch_unexpired_unique [OF assms(3,1)] assms(4) by simp
  then have b: "RawSQL_catch_spawn env st sid uid =
           ((False, if \<not> ce_db_up env then CatchError
                    else if expires_at row > ce_now env then AlreadyCaught
                    else Disappeared), st)"
    using assms(2) by (simp add: RawSQL_catch_spawn_def)
  from a b show ?thesis by simp
qed

theorem caught_spawn_attempt_changes_nothing_witness:
  "fetch_spawn caught_db ''spawn_1'' = Some caught_row
   \<and> is_caught caught_row
   \<and> SpawnService_catch_spawn (attempt (1/2) 500) caught_db ''spawn_1'' 42
       = ((False, AlreadyCaught), caught_db)
   \<and> RawSQL_catch_spawn (attempt (1/2) 500) (uncached caught_db) ''spawn_1'' 42
       = ((False, AlreadyCaught), uncached caught_db)"
  using caught_spawn_attempt_changes_nothing [of caught_db "''spawn_1''" caught_row
      "uncached caught_db" "attempt (1/2) 500" 42]
  by (simp add: caught_db_def caught_row_def wild_row_def attempt_def uncached_def
      fetch_spawn_def)

text \<open>
  C7 as stated fails in \<open>RawSQLSpawnService\<close>: the caught spawn below expired at
  1000, and an attempt at 2000 is answered "disappeared", not "already caught".
\<close>

theorem caught_expired_spawn_reported_disappeared:
  "fetch_spawn caught_db ''spawn_1'' = Some caught_row
   \<and> is_caught caught_row
   \<and> RawSQL_catch_spawn (attempt (1/2) 2000) (uncached caught_db) ''spawn_1'' 42
       = ((False, Disappeared), uncached caught_db)
   \<and> Disappeared \<noteq> AlreadyCaught"
  by (simp add: caught_db_def caught_row_def wild_row_def attempt_def uncached_def
      fetch_spawn_def RawSQL_catch_spawn_def fetch_unexpired_spawn_def)

subsection \<open>A failed roll\<close>

lemma fetch_spawn_active:
  assumes "fetch_spawn d sid = Some row" and "\<not> is_caught row" and "now < expires_at row"
  shows "has_active_spawn d (chat_id row) now"
proof -
  from assms(1) have "row \<in> set (spawns d)"
    by (auto simp: fetch_spawn_def find_Some_iff)
  with assms(2,3) show ?thesis
    by (auto simp: has_active_spawn_def find_None_iff)
qed

lemma SpawnService_catch_reaches_roll:
  assumes "fetch_spawn d sid = Some row" and "\<not> is_caught row"
    and "ce_db_up env" and "ce_now env < expires_at row"
  shows "snd (fst (SpawnService_catch_spawn env d sid uid)) \<notin> {SpawnNotFound, AlreadyCaught, Fled}"
  using assms by (simp add: SpawnService_catch_spawn_def)

lemma RawSQL_catch_reaches_roll:
  assumes "fetch_unexpired_spawn (fdb st) sid (ce_now env) = Some row" and "\<not> is_caught row"
    and "ce_db_up env"
  shows "snd (fst (RawSQL_catch_spawn env st sid uid)) \<notin> {Disappeared, AlreadyCaught}"
  using assms by (simp add: RawSQL_catch_spawn_def Let_def)

text \<open>
  C3 (consumed on miss), as the code has it. On an open spawn (not caught, \<open>expires_at\<close>
  ahead) an attempt whose roll fails reports the escape and writes nothing. The spawn is
  left as it was, not consumed: its row is the one the store had, its channel still has
  an active spawn, and a later attempt on the same \<open>spawn_id\<close> before the expiry is not
  answered "not found", "already caught", "fled" or "disappeared" but goes on to its own
  roll. The roll fails in \<open>SpawnService\<close> when it exceeds the catch rate of the rarity, in
  \<open>RawSQLSpawnService\<close> when it is at most 0.02. The store keeps \<open>spawn_id\<close> unique.
\<close>

theorem failed_roll_writes_nothing:
  assumes "fetch_spawn d sid = Some row"
    and "distinct (map spawn_id (spawns d))"
    and "\<not> is_caught row"
    and "fdb st = d"
    and "ce_db_up e1" and "ce_now e1 < expires_at row"
    and "ce_roll e1 > catch_rate (rarity row)"
    and "ce_db_up e2" and "ce_now e2 < expires_at row"
    and "ce_roll e2 \<le> 2 / 100"
    and "ce_db_up e3" and "ce_now e3 < expires_at row"
  shows "SpawnService_catch_spawn e1 d sid uid = ((False, BrokeFree), d)
       \<and> RawSQL_catch_spawn e2 st sid uid = ((False, Escaped (species row)), st)
       \<and> fetch_spawn (snd (SpawnService_catch_spawn e1 d sid uid)) sid = Some row
       \<and> has_active_spawn (snd (SpawnService_catch_spawn e1 d sid uid)) (chat_id row) (ce_now e3)
       \<and> fetch_unexpired_spawn (fdb (snd (RawSQL_catch_spawn e2 st sid uid))) sid (ce_now e3)
           = Some row
       \<and> snd (fst (SpawnService_catch_spawn e3
                     (snd (SpawnService_catch_spawn e1 d sid uid)) sid uid'))
           \<notin> {SpawnNotFound, AlreadyCaught, Fled}
       \<and> snd (fst (RawSQL_catch_spawn e3 (snd (RawSQL_catch_spawn e2 st sid uid)) sid uid'))
           \<notin> {Disappeared, AlreadyCaught}"
proof -
  have a: "SpawnService_catch_spawn e1 d sid uid = ((False, BrokeFree), d)"
    using assms(1,3,5,6,7) by (simp add: SpawnService_catch_spawn_def)
  have f2: "fetch_unexpired_spawn (fdb st) sid (ce_now e2) = Some row"
    using fetch_unexpired_unique [OF assms(2,1)] assms(4,9) by simp
  have b: "RawSQL_catch_spawn e2 st sid uid = ((False, Escaped (species row)), st)"
    using f2 assms(3,8,10) by (simp add: RawSQL_catch_spawn_def)
  have c: "has_active_spawn d (chat_id row) (ce_now e3)"
    using assms(1,3,12) by (rule fetch_spawn_active)
  have f3: "fetch_unexpired_spawn (fdb st) sid (ce_now e3) = Some row"
    using fetch_unexpired_unique [OF assms(2,1)] assms(4,12) by simp
  have g: "snd (fst (SpawnService_catch_spawn e3 d sid uid'))
             \<notin> {SpawnNotFound, AlreadyCaught, Fled}"
    using assms(1,3,11,12) by (rule SpawnService_catch_reaches_roll)
  have h: "snd (fst (RawSQL_catch_spawn e3 st sid uid')) \<notin> {Disappeared, AlreadyCaught}"
    using f3 assms(3,11) by (rule RawSQL_catch_reaches_roll)
  show ?thesis
    unfolding a b snd_conv using assms(1) c f3 g h by (intro conjI) simp_all
qed

theorem failed_roll_writes_nothing_witness:
  "fetch_spawn wild_db ''spawn_1'' = Some wild_row
   \<and> ce_roll (attempt (99/100) 500) > catch_rate (rarity wild_row)
   \<and> SpawnService_catch_spawn (attempt (99/100) 500) wild_db ''spawn_1'' 42
       = ((False, BrokeFree), wild_db)
   \<and> RawSQL_catch_spawn (attempt (1/100) 500) (uncached wild_db) ''spawn_1'' 42
       = ((False, Escaped ''pikachu''), uncached wild_db)
   \<and> has_active_spawn
         (snd (SpawnService_catch_spawn (attempt (99/100) 500) wild_db ''spawn_1'' 42)) 7 600
   \<and> snd (fst (SpawnService_catch_spawn (attempt (1/2) 600)
            (snd (SpawnService_catch_spawn (attempt (99/100) 500) wild_db ''spawn_1'' 42))
            ''spawn_1'' 43)) \<notin> {SpawnNotFound, AlreadyCaught, Fled}"
proof -
  have h1: "fetch_spawn wild_db ''spawn_1'' = Some wild_row"
    by (simp add: wild_db_def wild_row_def fetch_spawn_def)
  have h2: "distinct (map spawn_id (spawns wild_db))"
    by (simp add: wild_db_def)
  have h3: "\<not> is_caught wild_row"
    by (simp add: wild_row_def)
  have h4: "fdb (uncached wild_db) = wild_db"
    by (simp add: uncached_def)
  have h5: "ce_roll (attempt (99/100) 500) > catch_rate (rarity wild_row)"
    by (simp add: attempt_def catch_rate_def wild_row_def)
  have t: "species wild_row = ''pikachu''" "chat_id wild_row = 7"
    "ce_now (attempt (1/2) 600) = 600"
    by (simp_all add: wild_row_def attempt_def)
  have c: "SpawnService_catch_spawn (attempt (99/100) 500) wild_db ''spawn_1'' 42
             = ((False, BrokeFree), wild_db)
         \<and> RawSQL_catch_spawn (attempt (1/100) 500) (uncached wild_db) ''spawn_1'' 42
             = ((False, Escaped (species wild_row)), uncached wild_db)
         \<and> fetch_spawn (snd (SpawnService_catch_spawn (attempt (99/100) 500) wild_db
               ''spawn_1'' 42)) ''spawn_1'' = Some wild_row
         \<and> has_active_spawn
               (snd (SpawnService_catch_spawn (attempt (99/100) 500) wild_db ''spawn_1'' 42))
               (chat_id wild_row) (ce_now (attempt (1/2) 600))
         \<and> fetch_unexpired_spawn
               (fdb (snd (RawSQL_catch_spawn (attempt (1/100) 500) (uncached wild_db)
                  ''spawn_1'' 42))) ''spawn_1'' (ce_now (attempt (1/2) 600)) = Some wild_row
         \<and> snd (fst (SpawnService_catch_spawn (attempt (1/2) 600)
                  (snd (SpawnService_catch_spawn (attempt (99/100) 500) wild_db ''spawn_1'' 42))
                  ''spawn_1'' 43)) \<notin> {SpawnNotFound, AlreadyCaught, Fled}
         \<and> snd (fst (RawSQL_catch_spawn (attempt (1/2) 600)
                  (snd (RawSQL_catch_spawn (attempt (1/100) 500) (uncached wild_db)
                     ''spawn_1'' 42)) ''spawn_1'' 43)) \<notin> {Disappeared, AlreadyCaught}"
    by (rule failed_roll_writes_nothing [OF h1 h2 h3 h4 _ _ h5])
       (simp_all add: attempt_def wild_row_def)
  from c [unfolded t] h1 h5 show ?thesis by blast
qed

text \<open>
  C3 as stated fails in both services. User 42 misses the spawn at time 500. The spawn is
  not consumed: at time 600 its row is still not caught, it is still the active spawn of
  chat 7, and the attempt of user 43 is rolled again (and misses again) instead of being
  refused.
\<close>

theorem spawn_still_active_after_failed_roll:
  "fst (SpawnService_catch_spawn (attempt (99/100) 500) wild_db ''spawn_1'' 42)
     = (False, BrokeFree)
   \<and> map is_caught (spawns (snd
         (SpawnService_catch_spawn (attempt (99/100) 500) wild_db ''spawn_1'' 42))) = [False]
   \<and> has_active_spawn
         (snd (SpawnService_catch_spawn (attempt (99/100) 500) wild_db ''spawn_1'' 42)) 7 600
   \<and> fst (SpawnService_catch_spawn (attempt (99/100) 600)
            (snd (SpawnService_catch_spawn (attempt (99/100) 500) wild_db ''spawn_1'' 42))
            ''spawn_1'' 43) = (False, BrokeFree)
   \<and> fst (RawSQL_catch_spawn (attempt (1/100) 500) (uncached wild_db) ''spawn_1'' 42)
     = (False, Escaped ''pikachu'')
   \<and> fetch_active_spawn (fdb (snd
         (RawSQL_catch_spawn (attempt (1/100) 500) (uncached wild_db) ''spawn_1'' 42))) 7 600
     = Some wild_row
   \<and> fst (RawSQL_catch_spawn (attempt (1/100) 600)
            (snd (RawSQL_catch_spawn (attempt (1/100) 500) (uncached wild_db) ''spawn_1'' 42))
            ''spawn_1'' 43) = (False, Escaped ''pikachu'')"
  by (simp add: wild_db_def wild_row_def attempt_def uncached_def fetch_spawn_def
      catch_rate_def SpawnService_catch_spawn_def RawSQL_catch_spawn_def
      fetch_unexpired_spawn_def has_active_spawn_def fetch_active_spawn_def Let_def)

subsection \<open>Creating a spawn\<close>

lemma has_active_spawn_iff:
  "has_active_spawn d chat now \<longleftrightarrow>
     (\<exists>r\<in>set (spawns d). chat_id r = chat \<and> \<not> is_caught r \<and> now < expires_at r)"
  by (auto simp: has_active_spawn_def find_None_iff)

lemma active_spawn_id_truthy:
  assumes "\<forall>r\<in>set (spawns d). truthy_int (row_id r)"
  shows "truthy_int (active_spawn_id d chat now) \<longleftrightarrow>
     (\<exists>r\<in>set (spawns d). chat_id r = chat \<and> \<not> is_caught r \<and> now < expires_at r)"
proof (cases "find (\<lambda>r. chat_id r = chat \<and> \<not> is_caught r \<and> expires_at r > now) (spawns d)")
  case None
  then have "\<not> (\<exists>r\<in>set (spawns d). chat_id r = chat \<and> \<not> is_caught r \<and> now < expires_at r)"
    by (auto simp: find_None_iff)
  moreover have "active_spawn_id d chat now = None"
    using None by (simp add: active_spawn_id_def)
  ultimately show ?thesis by (simp add: truthy_int_def)
next
  case (Some r)
  then have "r \<in> set (spawns d)" "chat_id r = chat \<and> \<not> is_caught r \<and> expires_at r > now"
    by (auto simp: find_Some_iff)
  with Some assms show ?thesis
    by (auto simp: active_spawn_id_def)
qed

lemma persist_spawn_result:
  assumes "persist_spawn env sv d chat sid pd = (res, sv', d')"
  shows "(res = None \<and> d' = d) \<or>
         (\<exists>name. map_of pd ''name'' = Some (JString name)
            \<and> res = Some (new_spawn env chat sid name)
            \<and> d' = d\<lparr>spawns := spawns d @
                  [(new_spawn env chat sid name)\<lparr>row_id := Some (cr_row_id env)\<rparr>]\<rparr>)"
proof (cases "map_of pd ''name''")
  case None
  with assms show ?thesis by (simp add: persist_spawn_def)
next
  case (Some v)
  show ?thesis
  proof (cases v)
    case (JString name)
    with Some assms show ?thesis
      by (cases "spawn_id_taken d (cr_spawn_id env)") (auto simp: persist_spawn_def)
  next
    case JOther
    with Some assms show ?thesis by (simp add: persist_spawn_def)
  qed
qed

lemma persist_spawn_created:
  assumes "map_of pd ''name'' = Some (JString name)"
    and "\<not> spawn_id_taken d (cr_spawn_id env)"
  shows "persist_spawn env sv d chat sid pd =
           (Some (new_spawn env chat sid name), sv,
            d\<lparr>spawns := spawns d @
                  [(new_spawn env chat sid name)\<lparr>row_id := Some (cr_row_id env)\<rparr>]\<rparr>)"
  using assms by (simp add: persist_spawn_def)

lemma new_spawn_fields:
  "chat_id (new_spawn env chat sid name) = chat"
  "\<not> is_caught (new_spawn env chat sid name)"
  "spawned_at (new_spawn env chat sid name) = cr_now env"
  "expires_at (new_spawn env chat sid name) = cr_now env + timedelta_minutes 8"
  "species (new_spawn env chat sid name) = name"
  "species_id (new_spawn env chat sid name) = sid"
  by (simp_all add: new_spawn_def)

lemma fast_new_spawn_fields:
  "chat_id (fast_new_spawn env chat) = chat"
  "\<not> is_caught (fast_new_spawn env chat)"
  "spawn_id (fast_new_spawn env chat) = fc_spawn_id env"
  "expires_at (fast_new_spawn env chat) = fc_utcnow env + timedelta_minutes 10"
  by (simp_all add: fast_new_spawn_def)

lemma SpawnService_create_suppressed:
  assumes "has_active_spawn d chat (cr_now_check env)"
  shows "fst (SpawnService_create_spawn env sv d chat) = None
       \<and> snd (snd (SpawnService_create_spawn env sv d chat)) = d"
  using assms by (simp add: SpawnService_create_spawn_def Let_def)

lemma SpawnService_create_created:
  assumes "\<not> has_active_spawn d chat (cr_now_check env)"
    and "cr_db_up env"
    and "\<not> spawn_id_taken d (cr_spawn_id env)"
    and "fst (pick_species env (clear_cache_if_needed env sv)) = Some (sid, pd)"
    and "map_of pd ''name'' = Some (JString name)"
  shows "fst (SpawnService_create_spawn env sv d chat) = Some (new_spawn env chat sid name)
       \<and> spawns (snd (snd (SpawnService_create_spawn env sv d chat)))
           = spawns d @ [(new_spawn env chat sid name)\<lparr>row_id := Some (cr_row_id env)\<rparr>]"
proof -
  obtain sv' where p: "pick_species env (clear_cache_if_needed env sv) = (Some (sid, pd), sv')"
    using assms(4) by (cases "pick_species env (clear_cache_if_needed env sv)") simp
  have "SpawnService_create_spawn env sv d chat = persist_spawn env sv' d chat sid pd"
    using assms(1,2) p by (simp add: SpawnService_create_spawn_def Let_def)
  then show ?thesis
    by (simp add: persist_spawn_created [OF assms(5,3)])
qed

lemma RawSQL_create_suppressed:
  assumes "truthy_int (active_spawn_id (fdb st) chat (fc_now_check env))"
  shows "RawSQL_create_spawn env st chat = (False, st)"
  using assms by (simp add: RawSQL_create_spawn_def)

lemma RawSQL_create_created:
  assumes "\<not> truthy_int (active_spawn_id (fdb st) chat (fc_now_check env))"
    and "fc_db_up env"
    and "\<not> spawn_id_taken (fdb st) (fc_spawn_id env)"
  shows "fst (RawSQL_create_spawn env st chat) = True
       \<and> spawns (fdb (snd (RawSQL_create_spawn env st chat)))
           = spawns (fdb st) @ [fast_new_spawn env chat]"
  using assms by (simp add: RawSQL_create_spawn_def)

text \<open>
  C4 (duplicate-spawn suppression). When the store holds a spawn of the channel with
  \<open>is_caught\<close> false and \<open>expires_at\<close> after the time of the check, \<open>create_spawn\<close>
  returns \<open>None\<close> (\<open>SpawnService\<close>) or \<open>False\<close> (\<open>RawSQLSpawnService\<close>) and the store is
  unchanged. When it holds none, the store responds, the generated \<open>spawn_id\<close> is new
  and (in \<open>SpawnService\<close>) the catalog gave data with a name, it returns a created result
  and the store gains exactly one row, for this channel, not caught, whose \<open>expires_at\<close>
  is the clock reading taken at creation plus the window: 8 minutes in \<open>SpawnService\<close>
  (where \<open>spawned_at\<close> is the same reading), 10 minutes in \<open>RawSQLSpawnService\<close>. The
  rows of the store carry the non-zero \<open>id\<close> that the autoincrement key gives them.
\<close>

theorem duplicate_spawn_suppressed:
  assumes "\<forall>r\<in>set (spawns d). truthy_int (row_id r)"
    and "fdb st = d"
  shows "((\<exists>r\<in>set (spawns d). chat_id r = chat \<and> \<not> is_caught r \<and> cr_now_check env < expires_at r)
            \<longrightarrow> fst (SpawnService_create_spawn env sv d chat) = None
              \<and> snd (snd (SpawnService_create_spawn env sv d chat)) = d)
       \<and> ((\<exists>r\<in>set (spawns d). chat_id r = chat \<and> \<not> is_caught r \<and> fc_now_check fenv < expires_at r)
            \<longrightarrow> RawSQL_create_spawn fenv st chat = (False, st))
       \<and> (\<not> (\<exists>r\<in>set (spawns d). chat_id r = chat \<and> \<not> is_caught r \<and> cr_now_check env < expires_at r)
            \<and> cr_db_up env \<and> \<not> spawn_id_taken d (cr_spawn_id env)
            \<and> fst (pick_species env (clear_cache_if_needed env sv)) = Some (sid, pd)
            \<and> map_of pd ''name'' = Some (JString name)
            \<longrightarrow> (\<exists>spawn. fst (SpawnService_create_spawn env sv d chat) = Some spawn
                  \<and> spawns (snd (snd (SpawnService_create_spawn env sv d chat)))
                      = spawns d @ [spawn\<lparr>row_id := Some (cr_row_id env)\<rparr>]
                  \<and> chat_id spawn = chat \<and> \<not> is_caught spawn
                  \<and> spawned_at spawn = cr_now env
                  \<and> expires_at spawn = cr_now env + timedelta_minutes 8))
       \<and> (\<not> (\<exists>r\<in>set (spawns d). chat_id r = chat \<and> \<not> is_caught r \<and> fc_now_check fenv < expires_at r)
            \<and> fc_db_up fenv \<and> \<not> spawn_id_taken d (fc_spawn_id fenv)
            \<longrightarrow> (\<exists>row. fst (RawSQL_create_spawn fenv st chat) = True
                  \<and> spawns (fdb (snd (RawSQL_create_spawn fenv st chat))) = spawns d @ [row]
                  \<and> chat_id row = chat \<and> \<not> is_caught row \<and> spawn_id row = fc_spawn_id fenv
                  \<and> expires_at row = fc_utcnow fenv + timedelta_minutes 10))"
    (is "(?A \<longrightarrow> ?P1) \<and> (?B \<longrightarrow> ?P2) \<and> (\<not> ?A \<and> ?H3 \<longrightarrow> ?P3) \<and> (\<not> ?B \<and> ?H4 \<longrightarrow> ?P4)")
proof -
  have ids: "\<forall>r\<in>set (spawns (fdb st)). truthy_int (row_id r)"
    using assms by simp
  have actA: "has_active_spawn d chat (cr_now_check env) \<longleftrightarrow> ?A"
    by (rule has_active_spawn_iff)
  have actB: "truthy_int (active_spawn_id (fdb st) chat (fc_now_check fenv)) \<longleftrightarrow> ?B"
    using active_spawn_id_truthy [OF ids, of chat "fc_now_check fenv"] assms(2) by simp
  have 1: "?A \<longrightarrow> ?P1"
  proof
    assume ?A
    then have "has_active_spawn d chat (cr_now_check env)" using actA by simp
    then show ?P1 by (rule SpawnService_create_suppressed)
  qed
  have 2: "?B \<longrightarrow> ?P2"
  proof
    assume ?B
    then have "truthy_int (active_spawn_id (fdb st) chat (fc_now_check fenv))"
      using actB by simp
    then show ?P2 by (rule RawSQL_create_suppressed)
  qed
  have 3: "\<not> ?A \<and> ?H3 \<longrightarrow> ?P3"
  proof
    assume h: "\<not> ?A \<and> ?H3"
    then have na: "\<not> has_active_spawn d chat (cr_now_check env)" using actA by simp
    from h have up: "cr_db_up env" and fresh: "\<not> spawn_id_taken d (cr_spawn_id env)"
      and pick: "fst (pick_species env (clear_cache_if_needed env sv)) = Some (sid, pd)"
      and nm: "map_of pd ''name'' = Some (JString name)"
      by simp_all
    from SpawnService_create_created [OF na up fresh pick nm]
    show ?P3
      by (intro exI [of _ "new_spawn env chat sid name"]) (simp add: new_spawn_fields)
  qed
  have 4: "\<not> ?B \<and> ?H4 \<longrightarrow> ?P4"
  proof
    assume h: "\<not> ?B \<and> ?H4"
    then have nb: "\<not> truthy_int (active_spawn_id (fdb st) chat (fc_now_check fenv))"
      using actB by simp
    from h assms(2) have up: "fc_db_up fenv"
      and fresh: "\<not> spawn_id_taken (fdb st) (fc_spawn_id fenv)"
      by simp_all
    from RawSQL_create_created [OF nb up fresh] assms(2)
    show ?P4
      by (intro exI [of _ "fast_new_spawn fenv chat"]) (simp add: fast_new_spawn_fields)
  qed
  from 1 2 3 4 show ?thesis by (intro conjI)
qed

theorem duplicate_spawn_suppressed_witness:
  "fst (SpawnService_create_spawn (creation 500 25 25) fresh_svc wild_db 7) = None
   \<and> snd (snd (SpawnService_create_spawn (creation 500 25 25) fresh_svc wild_db 7)) = wild_db
   \<and> RawSQL_create_spawn (fast_creation 500) (uncached wild_db) 7 = (False, uncached wild_db)
   \<and> map expires_at (spawns (snd (snd
         (SpawnService_create_spawn (creation 2000 25 25) fresh_svc wild_db 7))))
       = [1000, 2000 + timedelta_minutes 8]
   \<and> fst (RawSQL_create_spawn (fast_creation 2000) (uncached wild_db) 7) = True
   \<and> map expires_at (spawns (fdb (snd
         (RawSQL_create_spawn (fast_creation 2000) (uncached wild_db) 7))))
       = [1000, 2000 + timedelta_minutes 10]"
proof -
  have ids: "\<forall>r\<in>set (spawns wild_db). truthy_int (row_id r)"
    by (simp add: wild_db_def wild_row_def truthy_int_def)
  have st: "fdb (uncached wild_db) = wild_db"
    by (simp add: uncached_def)
  have ex: "map expires_at (spawns wild_db) = [1000]"
    by (simp add: wild_db_def wild_row_def)
  have open500: "\<exists>r\<in>set (spawns wild_db). chat_id r = 7 \<and> \<not> is_caught r
                   \<and> cr_now_check (creation 500 25 25) < expires_at r"
    by (simp add: wild_db_def wild_row_def creation_def)
  have fopen500: "\<exists>r\<in>set (spawns wild_db). chat_id r = 7 \<and> \<not> is_caught r
                   \<and> fc_now_check (fast_creation 500) < expires_at r"
    by (simp add: wild_db_def wild_row_def fast_creation_def)
  have gone2000: "\<not> (\<exists>r\<in>set (spawns wild_db). chat_id r = 7 \<and> \<not> is_caught r
                   \<and> cr_now_check (creation 2000 25 25) < expires_at r)"
    by (simp add: wild_db_def wild_row_def creation_def)
  have fgone2000: "\<not> (\<exists>r\<in>set (spawns wild_db). chat_id r = 7 \<and> \<not> is_caught r
                   \<and> fc_now_check (fast_creation 2000) < expires_at r)"
    by (simp add: wild_db_def wild_row_def fast_creation_def)
  have h3: "cr_db_up (creation 2000 25 25)
            \<and> \<not> spawn_id_taken wild_db (cr_spawn_id (creation 2000 25 25))
            \<and> fst (pick_species (creation 2000 25 25)
                      (clear_cache_if_needed (creation 2000 25 25) fresh_svc))
                = Some (25, [(''name'', JString ''pikachu'')])
            \<and> map_of [(''name'', JString ''pikachu'')] ''name'' = Some (JString ''pikachu'')"
    by (simp add: creation_def spawn_id_taken_def wild_db_def wild_row_def pick_species_def
        clear_cache_if_needed_def timedelta_seconds_def fresh_svc_def
        get_cached_pokemon_data_def catalog_def truthy_dict_def Let_def randint_def)
  have h4: "fc_db_up (fast_creation 2000)
            \<and> \<not> spawn_id_taken wild_db (fc_spawn_id (fast_creation 2000))"
    by (simp add: fast_creation_def spawn_id_taken_def wild_db_def wild_row_def)
  note early = duplicate_spawn_suppressed [OF ids st, of 7 "creation 500 25 25" fresh_svc
      "fast_creation 500"]
  note late = duplicate_spawn_suppressed [OF ids st, of 7 "creation 2000 25 25" fresh_svc
      "fast_creation 2000" 25 "[(''name'', JString ''pikachu'')]" "''pikachu''"]
  from early open500
  have a: "fst (SpawnService_create_spawn (creation 500 25 25) fresh_svc wild_db 7) = None
         \<and> snd (snd (SpawnService_create_spawn (creation 500 25 25) fresh_svc wild_db 7)) = wild_db"
    by blast
  from early fopen500
  have b: "RawSQL_create_spawn (fast_creation 500) (uncached wild_db) 7 = (False, uncached wild_db)"
    by blast
  from late gone2000 h3
  obtain spawn where c: "spawns (snd (snd
         (SpawnService_create_spawn (creation 2000 25 25) fresh_svc wild_db 7)))
           = spawns wild_db @ [spawn\<lparr>row_id := Some (cr_row_id (creation 2000 25 25))\<rparr>]"
       "expires_at spawn = cr_now (creation 2000 25 25) + timedelta_minutes 8"
    by blast
  from late fgone2000 h4
  obtain row where e: "fst (RawSQL_create_spawn (fast_creation 2000) (uncached wild_db) 7) = True"
       "spawns (fdb (snd (RawSQL_create_spawn (fast_creation 2000) (uncached wild_db) 7)))
           = spawns wild_db @ [row]"
       "expires_at row = fc_utcnow (fast_creation 2000) + timedelta_minutes 10"
    by blast
  have c': "map expires_at (spawns (snd (snd
         (SpawnService_create_spawn (creation 2000 25 25) fresh_svc wild_db 7))))
       = [1000, 2000 + timedelta_minutes 8]"
    using c ex by (simp add: creation_def)
  have e': "map expires_at (spawns (fdb (snd
         (RawSQL_create_spawn (fast_creation 2000) (uncached wild_db) 7))))
       = [1000, 2000 + timedelta_minutes 10]"
    using e ex by (simp add: fast_creation_def)
  from a b c' e(1) e' show ?thesis by (intro conjI) simp_all
qed

subsection \<open>Catalog failures\<close>

lemma randint_range:
  assumes "a \<le> b"
  shows "randint a b draw \<in> {a..b}"
proof -
  have p: "0 < b - a + 1" using assms by simp
  have lo: "0 \<le> int draw mod (b - a + 1)"
    using p by (rule pos_mod_sign)
  have hi: "int draw mod (b - a + 1) < b - a + 1"
    using p by (rule pos_mod_bound)
  have "a \<le> a + int draw mod (b - a + 1)" and "a + int draw mod (b - a + 1) \<le> b"
    using lo hi by linarith+
  then show ?thesis by (simp add: randint_def)
qed

lemma get_cached_pokemon_data_truthy:
  assumes "get_cached_pokemon_data api sv sid = (data, sv1)"
    and "truthy_dict data = Some pd"
  shows "pokemon_cache sv1 sid = Some pd \<and> pd \<noteq> []"
proof (cases "pokemon_cache sv sid")
  case None
  with assms show ?thesis
    by (auto simp: get_cached_pokemon_data_def Let_def truthy_dict_def
        split: option.splits if_splits)
next
  case (Some cached)
  with assms have "data = Some cached" and "sv1 = sv"
    by (simp_all add: get_cached_pokemon_data_def)
  with assms(2) Some show ?thesis
    by (auto simp: truthy_dict_def split: if_splits)
qed

lemma pick_species_fallback:
  assumes "get_cached_pokemon_data (cr_api_first env) sv (randint 1 1010 (cr_species_draw env))
             = (data1, sv1)"
    and "truthy_dict data1 = None"
    and "get_cached_pokemon_data (cr_api_retry env) sv1 (randint 1 151 (cr_fallback_draw env))
             = (data2, sv2)"
  shows "pick_species env sv =
           (case truthy_dict data2 of
              Some pd2 \<Rightarrow> (Some (randint 1 151 (cr_fallback_draw env), pd2), sv2)
            | None \<Rightarrow> (None, sv2))"
  using assms by (simp add: pick_species_def Let_def)

lemma pick_species_payload:
  assumes "pick_species env sv = (Some (sid, pd), sv')"
  shows "pokemon_cache sv' sid = Some pd \<and> pd \<noteq> []"
proof -
  obtain data1 sv1 where l1: "get_cached_pokemon_data (cr_api_first env) sv
      (randint 1 1010 (cr_species_draw env)) = (data1, sv1)"
    by (cases "get_cached_pokemon_data (cr_api_first env) sv (randint 1 1010 (cr_species_draw env))")
  show ?thesis
  proof (cases "truthy_dict data1")
    case (Some pd1)
    with l1 assms have "sid = randint 1 1010 (cr_species_draw env)" "pd = pd1" "sv' = sv1"
      by (simp_all add: pick_species_def Let_def)
    with get_cached_pokemon_data_truthy [OF l1 Some] show ?thesis by simp
  next
    case None
    obtain data2 sv2 where l2: "get_cached_pokemon_data (cr_api_retry env) sv1
        (randint 1 151 (cr_fallback_draw env)) = (data2, sv2)"
      by (cases "get_cached_pokemon_data (cr_api_retry env) sv1 (randint 1 151 (cr_fallback_draw env))")
    note p = pick_species_fallback [OF l1 None l2]
    show ?thesis
    proof (cases "truthy_dict data2")
      case None
      with p assms show ?thesis by simp
    next
      case (Some pd2)
      with p assms have "sid = randint 1 151 (cr_fallback_draw env)" "pd = pd2" "sv' = sv2"
        by simp_all
      with get_cached_pokemon_data_truthy [OF l2 Some] show ?thesis by simp
    qed
  qed
qed

lemma SpawnService_create_result:
  assumes "SpawnService_create_spawn env sv0 d chat = (res, sv', d')"
  shows "(res = None \<and> d' = d) \<or>
         (\<exists>spawn pd. res = Some spawn
            \<and> pokemon_cache sv' (species_id spawn) = Some pd \<and> pd \<noteq> []
            \<and> map_of pd ''name'' = Some (JString (species spawn))
            \<and> d' = d\<lparr>spawns := spawns d @ [spawn\<lparr>row_id := Some (cr_row_id env)\<rparr>]\<rparr>)"
proof (cases "\<not> cr_db_up env \<or> has_active_spawn d chat (cr_now_check env)")
  case True
  with assms show ?thesis
    by (auto simp: SpawnService_create_spawn_def Let_def split: if_splits)
next
  case False
  obtain picked sv1 where p: "pick_species env (clear_cache_if_needed env sv0) = (picked, sv1)"
    by (cases "pick_species env (clear_cache_if_needed env sv0)")
  show ?thesis
  proof (cases picked)
    case None
    with False p assms show ?thesis
      by (simp add: SpawnService_create_spawn_def Let_def)
  next
    case (Some sp)
    obtain sid pd where sp: "sp = (sid, pd)" by (cases sp)
    with Some False p assms
    have r: "persist_spawn env sv1 d chat sid pd = (res, sv', d')"
      by (simp add: SpawnService_create_spawn_def Let_def)
    then have sv: "sv' = sv1"
      by (auto simp: persist_spawn_def split: option.splits jvalue.splits if_splits)
    from p Some sp have "pokemon_cache sv1 sid = Some pd \<and> pd \<noteq> []"
      using pick_species_payload [of env "clear_cache_if_needed env sv0" sid pd sv1] by simp
    with persist_spawn_result [OF r] sv show ?thesis
      by (auto simp: new_spawn_fields)
  qed
qed

lemma SpawnService_create_fallback:
  assumes "cr_db_up env"
    and "\<not> has_active_spawn d chat (cr_now_check env)"
    and "get_cached_pokemon_data (cr_api_first env) (clear_cache_if_needed env sv0)
           (randint 1 1010 (cr_species_draw env)) = (data1, sv1)"
    and "truthy_dict data1 = None"
    and "get_cached_pokemon_data (cr_api_retry env) sv1
           (randint 1 151 (cr_fallback_draw env)) = (data2, sv2)"
  shows "SpawnService_create_spawn env sv0 d chat =
           (case truthy_dict data2 of
              None \<Rightarrow> (None, sv2, d)
            | Some pd \<Rightarrow> persist_spawn env sv2 d chat (randint 1 151 (cr_fallback_draw env)) pd)"
  using assms(1,2) pick_species_fallback [OF assms(3,4,5)]
  by (simp add: SpawnService_create_spawn_def Let_def split: option.splits)

text \<open>
  C8 (catalog failure handling). In \<open>SpawnService.create_spawn\<close>, a spawn is never
  persisted without its payload: whenever a spawn is returned, the store has gained
  exactly that row, and the name of the row is the one found in the catalog data that
  the service holds for the species of the row; whenever \<open>None\<close> is returned the store
  is unchanged. With the store responding and no active spawn in the channel, when the
  lookup of the species drawn first gives nothing, the species \<^verbatim>\<open>randint(1, 151)\<close> is
  looked up, an id of the first generation. If that lookup gives nothing either, the
  result is \<open>None\<close> and the store is unchanged. If it gives data with a name (and the
  generated \<open>spawn_id\<close> is new), the spawn is created with the fallback species and that
  name, and its row is added to the store.
\<close>

theorem catalog_failure_handling:
  "(\<forall>spawn sv' d'. SpawnService_create_spawn env sv0 d chat = (Some spawn, sv', d') \<longrightarrow>
       (\<exists>pd. pokemon_cache sv' (species_id spawn) = Some pd \<and> pd \<noteq> []
             \<and> map_of pd ''name'' = Some (JString (species spawn)))
     \<and> d' = d\<lparr>spawns := spawns d @ [spawn\<lparr>row_id := Some (cr_row_id env)\<rparr>]\<rparr>)
   \<and> (\<forall>sv' d'. SpawnService_create_spawn env sv0 d chat = (None, sv', d') \<longrightarrow> d' = d)
   \<and> (cr_db_up env \<and> \<not> has_active_spawn d chat (cr_now_check env)
        \<and> get_cached_pokemon_data (cr_api_first env) (clear_cache_if_needed env sv0)
              (randint 1 1010 (cr_species_draw env)) = (data1, sv1)
        \<and> truthy_dict data1 = None
        \<and> get_cached_pokemon_data (cr_api_retry env) sv1
              (randint 1 151 (cr_fallback_draw env)) = (data2, sv2)
      \<longrightarrow> randint 1 151 (cr_fallback_draw env) \<in> {1..151}
        \<and> (truthy_dict data2 = None
              \<longrightarrow> SpawnService_create_spawn env sv0 d chat = (None, sv2, d))
        \<and> (\<forall>pd name. truthy_dict data2 = Some pd
                \<and> map_of pd ''name'' = Some (JString name)
                \<and> \<not> spawn_id_taken d (cr_spawn_id env)
              \<longrightarrow> (\<exists>spawn. SpawnService_create_spawn env sv0 d chat =
                      (Some spawn, sv2,
                       d\<lparr>spawns := spawns d @ [spawn\<lparr>row_id := Some (cr_row_id env)\<rparr>]\<rparr>)
                    \<and> species_id spawn = randint 1 151 (cr_fallback_draw env)
                    \<and> species_id spawn \<in> {1..151}
                    \<and> species spawn = name \<and> chat_id spawn = chat)))"
    (is "?A \<and> ?B \<and> (?H \<longrightarrow> ?R \<and> ?C \<and> ?D)")
proof -
  have a: ?A
    using SpawnService_create_result [of env sv0 d chat] by blast
  have b: ?B
    using SpawnService_create_result [of env sv0 d chat] by blast
  have c: "?H \<longrightarrow> ?R \<and> ?C \<and> ?D"
  proof
    assume h: ?H
    then have up: "cr_db_up env" and na: "\<not> has_active_spawn d chat (cr_now_check env)"
      and l1: "get_cached_pokemon_data (cr_api_first env) (clear_cache_if_needed env sv0)
              (randint 1 1010 (cr_species_draw env)) = (data1, sv1)"
      and t1: "truthy_dict data1 = None"
      and l2: "get_cached_pokemon_data (cr_api_retry env) sv1
              (randint 1 151 (cr_fallback_draw env)) = (data2, sv2)"
      by simp_all
    note f = SpawnService_create_fallback [OF up na l1 t1 l2]
    have r: ?R by (rule randint_range) simp
    have c1: ?C using f by simp
    have d1: ?D
    proof (intro allI impI)
      fix pd name
      assume p: "truthy_dict data2 = Some pd \<and> map_of pd ''name'' = Some (JString name)
                \<and> \<not> spawn_id_taken d (cr_spawn_id env)"
      let ?s = "new_spawn env chat (randint 1 151 (cr_fallback_draw env)) name"
      from p have nm: "map_of pd ''name'' = Some (JString name)"
        and fr: "\<not> spawn_id_taken d (cr_spawn_id env)" by simp_all
      have "SpawnService_create_spawn env sv0 d chat =
              (Some ?s, sv2, d\<lparr>spawns := spawns d @ [?s\<lparr>row_id := Some (cr_row_id env)\<rparr>]\<rparr>)"
        using f p by (simp add: persist_spawn_created [OF nm fr])
      then show "\<exists>spawn. SpawnService_create_spawn env sv0 d chat =
                      (Some spawn, sv2,
                       d\<lparr>spawns := spawns d @ [spawn\<lparr>row_id := Some (cr_row_id env)\<rparr>]\<rparr>)
                    \<and> species_id spawn = randint 1 151 (cr_fallback_draw env)
                    \<and> species_id spawn \<in> {1..151}
                    \<and> species spawn = name \<and> chat_id spawn = chat"
        using r by (intro exI [of _ ?s]) (simp add: new_spawn_fields)
    qed
    from r c1 d1 show "?R \<and> ?C \<and> ?D" by (intro conjI)
  qed
  from a b c show ?thesis by (intro conjI)
qed

theorem catalog_failure_handling_witness:
  "truthy_dict (catalog 900) = None
   \<and> randint 1 151 (cr_fallback_draw (creation 2000 900 25)) = 25
   \<and> SpawnService_create_spawn (creation 2000 900 150) fresh_svc empty_db 7
       = (None, fresh_svc, empty_db)
   \<and> fst (SpawnService_create_spawn (creation 2000 900 25) fresh_svc empty_db 7) \<noteq> None
   \<and> map species_id (spawns (snd (snd
        (SpawnService_create_spawn (creation 2000 900 25) fresh_svc empty_db 7)))) = [25]
   \<and> map species (spawns (snd (snd
        (SpawnService_create_spawn (creation 2000 900 25) fresh_svc empty_db 7)))) = [''pikachu'']"
proof -
  let ?pika = "[(''name'', JString ''pikachu'')]"
  let ?sv = "fresh_svc\<lparr>pokemon_cache := (pokemon_cache fresh_svc)(25 \<mapsto> ?pika)\<rparr>"
  have t1: "truthy_dict None = None" "truthy_dict (catalog 900) = None"
    "truthy_dict (Some ?pika) = Some ?pika"
    by (simp_all add: truthy_dict_def catalog_def)
  have rd: "randint 1 151 (cr_fallback_draw (creation 2000 900 25)) = 25"
    "randint 1 151 (cr_fallback_draw (creation 2000 900 150)) = 150"
    "randint 1 1010 (cr_species_draw (creation 2000 900 f)) = 900" for f
    by (simp_all add: creation_def randint_def)
  have h150: "cr_db_up (creation 2000 900 150)
      \<and> \<not> has_active_spawn empty_db 7 (cr_now_check (creation 2000 900 150))
      \<and> get_cached_pokemon_data (cr_api_first (creation 2000 900 150))
            (clear_cache_if_needed (creation 2000 900 150) fresh_svc)
            (randint 1 1010 (cr_species_draw (creation 2000 900 150))) = (None, fresh_svc)
      \<and> truthy_dict None = None
      \<and> get_cached_pokemon_data (cr_api_retry (creation 2000 900 150)) fresh_svc
            (randint 1 151 (cr_fallback_draw (creation 2000 900 150))) = (None, fresh_svc)"
    unfolding rd
    by (simp add: creation_def has_active_spawn_def empty_db_def clear_cache_if_needed_def
        timedelta_seconds_def fresh_svc_def get_cached_pokemon_data_def catalog_def
        truthy_dict_def Let_def)
  have h25: "cr_db_up (creation 2000 900 25)
      \<and> \<not> has_active_spawn empty_db 7 (cr_now_check (creation 2000 900 25))
      \<and> get_cached_pokemon_data (cr_api_first (creation 2000 900 25))
            (clear_cache_if_needed (creation 2000 900 25) fresh_svc)
            (randint 1 1010 (cr_species_draw (creation 2000 900 25))) = (None, fresh_svc)
      \<and> truthy_dict None = None
      \<and> get_cached_pokemon_data (cr_api_retry (creation 2000 900 25)) fresh_svc
            (randint 1 151 (cr_fallback_draw (creation 2000 900 25))) = (Some ?pika, ?sv)"
    unfolding rd
    by (simp add: creation_def has_active_spawn_def empty_db_def clear_cache_if_needed_def
        timedelta_seconds_def fresh_svc_def get_cached_pokemon_data_def catalog_def
        truthy_dict_def Let_def)
  have p25: "truthy_dict (Some ?pika) = Some ?pika
      \<and> map_of ?pika ''name'' = Some (JString ''pikachu'')
      \<and> \<not> spawn_id_taken empty_db (cr_spawn_id (creation 2000 900 25))"
    by (simp add: t1 spawn_id_taken_def empty_db_def)
  note r150 = catalog_failure_handling [of "creation 2000 900 150" fresh_svc empty_db 7
      None fresh_svc None fresh_svc, THEN conjunct2, THEN conjunct2, THEN mp, OF h150]
  have a: "SpawnService_create_spawn (creation 2000 900 150) fresh_svc empty_db 7
       = (None, fresh_svc, empty_db)"
    by (rule r150 [THEN conjunct2, THEN conjunct1, THEN mp, OF t1(1)])
  note r25 = catalog_failure_handling [of "creation 2000 900 25" fresh_svc empty_db 7
      None fresh_svc "Some ?pika" ?sv, THEN conjunct2, THEN conjunct2, THEN mp, OF h25]
  from r25 [THEN conjunct2, THEN conjunct2, THEN spec, THEN spec, THEN mp, OF p25]
  obtain spawn where b: "SpawnService_create_spawn (creation 2000 900 25) fresh_svc empty_db 7
        = (Some spawn, ?sv,
           empty_db\<lparr>spawns := spawns empty_db
              @ [spawn\<lparr>row_id := Some (cr_row_id (creation 2000 900 25))\<rparr>]\<rparr>)"
      "species_id spawn = randint 1 151 (cr_fallback_draw (creation 2000 900 25))"
      "species spawn = ''pikachu''"
    by (elim exE conjE)
  have c: "fst (SpawnService_create_spawn (creation 2000 900 25) fresh_svc empty_db 7) \<noteq> None"
    "map species_id (spawns (snd (snd
        (SpawnService_create_spawn (creation 2000 900 25) fresh_svc empty_db 7)))) = [25]"
    "map species (spawns (snd (snd
        (SpawnService_create_spawn (creation 2000 900 25) fresh_svc empty_db 7)))) = [''pikachu'']"
    using b rd(1) by (simp_all add: empty_db_def)
  from t1(2) rd(1) a c show ?thesis by (intro conjI)
qed

subsection \<open>Reading the active spawn\<close>

text \<open>
  C5 (cache expiry re-validation) does not hold of \<open>RawSQLSpawnService.get_active_spawn\<close>.
  A spawn is created in chat 7 at time 0 in an empty store, so it expires at 600000000
  (ten minutes). At time 700000000 the store's query for an active spawn of the chat
  finds none, yet \<open>get_active_spawn\<close> answers with the entry that \<open>create_spawn\<close> cached
  for the expired spawn.
\<close>

theorem get_active_spawn_serves_expired_cache_entry:
  "fst (RawSQL_create_spawn (fast_creation 0) (uncached empty_db) 7) = True
   \<and> map expires_at (spawns (fdb (snd
         (RawSQL_create_spawn (fast_creation 0) (uncached empty_db) 7)))) = [600000000]
   \<and> fetch_active_spawn
         (fdb (snd (RawSQL_create_spawn (fast_creation 0) (uncached empty_db) 7)))
         7 (ga_now (reading 700000000)) = None
   \<and> fst (RawSQL_get_active_spawn (reading 700000000)
         (snd (RawSQL_create_spawn (fast_creation 0) (uncached empty_db) 7)) 7)
       = Some (fast_cache_entry (fast_creation 0))
   \<and> sd_spawn_id (fast_cache_entry (fast_creation 0)) = ''spawn_2''"
proof -
  have c: "RawSQL_create_spawn (fast_creation 0) (uncached empty_db) 7
           = (True, \<lparr>fdb = empty_db\<lparr>spawns := [fast_new_spawn (fast_creation 0) 7]\<rparr>,
                     spawn_cache = [7 \<mapsto> fast_cache_entry (fast_creation 0)]\<rparr>)"
    by (simp add: RawSQL_create_spawn_def fast_creation_def uncached_def empty_db_def
        active_spawn_id_def truthy_int_def spawn_id_taken_def)
  have e: "expires_at (fast_new_spawn (fast_creation 0) 7) = 600000000"
    by (simp add: fast_new_spawn_def fast_creation_def timedelta_minutes_def)
  have g: "fst (RawSQL_get_active_spawn (reading 700000000)
              \<lparr>fdb = empty_db\<lparr>spawns := [fast_new_spawn (fast_creation 0) 7]\<rparr>,
                spawn_cache = [7 \<mapsto> fast_cache_entry (fast_creation 0)]\<rparr> 7)
           = Some (fast_cache_entry (fast_creation 0))"
    by (simp add: RawSQL_get_active_spawn_def Let_def reading_def fast_cache_entry_def)
  have i: "sd_spawn_id (fast_cache_entry (fast_creation 0)) = ''spawn_2''"
    by (simp add: fast_cache_entry_def fast_creation_def)
  show ?thesis
    unfolding c using e g i
    by (simp add: fetch_active_spawn_def reading_def)
qed

subsection \<open>The cooldown of manual spawns\<close>

lemma cooldown_check_first:
  assumes "\<not> is_admin admins uid" and "cd (cooldown_key uid) = None"
  shows "cooldown_check admins cd uid now = (Proceed, cd(cooldown_key uid \<mapsto> now))"
  using assms by (simp add: cooldown_check_def)

lemma cooldown_check_elapsed:
  assumes "\<not> is_admin admins uid" and "cd (cooldown_key uid) = Some prev"
    and "now - prev \<ge> 30"
  shows "cooldown_check admins cd uid now = (Proceed, cd(cooldown_key uid \<mapsto> now))"
  using assms by (simp add: cooldown_check_def)

lemma cooldown_check_active:
  assumes "\<not> is_admin admins uid" and "cd (cooldown_key uid) = Some prev"
    and "now - prev < 30"
  shows "cooldown_check admins cd uid now = (CooldownActive (30 - py_int (now - prev)), cd)"
  using assms by (simp add: cooldown_check_def)

text \<open>
  C6 (cooldown of manual spawns). For a user who is not an admin, the cooldown step of the manual
  spawn handler lets the request through and records the current time when the user has
  no record, or a record at least 30 seconds old; otherwise it answers with the cooldown
  message and leaves the cooldown map as it was. So a first request at time \<open>t\<close> passes,
  a second one before \<open>t + 30\<close> is refused, and a third one at or after \<open>t + 30\<close>
  passes again.
\<close>

theorem cooldown_window_enforced:
  assumes "\<not> is_admin admins uid"
  shows "(cd (cooldown_key uid) = None
            \<or> (\<exists>prev. cd (cooldown_key uid) = Some prev \<and> now - prev \<ge> 30)
          \<longrightarrow> cooldown_check admins cd uid now = (Proceed, cd(cooldown_key uid \<mapsto> now)))
       \<and> ((\<exists>prev. cd (cooldown_key uid) = Some prev \<and> now - prev < 30)
          \<longrightarrow> (\<exists>remaining. fst (cooldown_check admins cd uid now) = CooldownActive remaining)
            \<and> snd (cooldown_check admins cd uid now) = cd)
       \<and> (cd (cooldown_key uid) = None \<and> t \<le> t2 \<and> t2 < t + 30 \<and> t + 30 \<le> t3
          \<longrightarrow> fst (cooldown_check admins cd uid t) = Proceed
            \<and> (\<exists>remaining. fst (cooldown_check admins
                      (snd (cooldown_check admins cd uid t)) uid t2) = CooldownActive remaining)
            \<and> fst (cooldown_check admins
                      (snd (cooldown_check admins
                         (snd (cooldown_check admins cd uid t)) uid t2)) uid t3) = Proceed)"
proof -
  have 1: "cd (cooldown_key uid) = None
            \<or> (\<exists>prev. cd (cooldown_key uid) = Some prev \<and> now - prev \<ge> 30)
          \<longrightarrow> cooldown_check admins cd uid now = (Proceed, cd(cooldown_key uid \<mapsto> now))"
    using cooldown_check_first [OF assms] cooldown_check_elapsed [OF assms] by blast
  have 2: "(\<exists>prev. cd (cooldown_key uid) = Some prev \<and> now - prev < 30)
          \<longrightarrow> (\<exists>remaining. fst (cooldown_check admins cd uid now) = CooldownActive remaining)
            \<and> snd (cooldown_check admins cd uid now) = cd"
    using cooldown_check_active [OF assms, of cd _ now] by auto
  have 3: "cd (cooldown_key uid) = None \<and> t \<le> t2 \<and> t2 < t + 30 \<and> t + 30 \<le> t3
          \<longrightarrow> fst (cooldown_check admins cd uid t) = Proceed
            \<and> (\<exists>remaining. fst (cooldown_check admins
                      (snd (cooldown_check admins cd uid t)) uid t2) = CooldownActive remaining)
            \<and> fst (cooldown_check admins
                      (snd (cooldown_check admins
                         (snd (cooldown_check admins cd uid t)) uid t2)) uid t3) = Proceed"
  proof
    assume h: "cd (cooldown_key uid) = None \<and> t \<le> t2 \<and> t2 < t + 30 \<and> t + 30 \<le> t3"
    let ?cd1 = "cd(cooldown_key uid \<mapsto> t)"
    have a: "cooldown_check admins cd uid t = (Proceed, ?cd1)"
      using cooldown_check_first [OF assms] h by simp
    have r: "?cd1 (cooldown_key uid) = Some t" by simp
    have b: "cooldown_check admins ?cd1 uid t2 = (CooldownActive (30 - py_int (t2 - t)), ?cd1)"
      using cooldown_check_active [of admins uid ?cd1 t t2] assms h by simp
    have c: "cooldown_check admins ?cd1 uid t3 = (Proceed, ?cd1(cooldown_key uid \<mapsto> t3))"
      using cooldown_check_elapsed [of admins uid ?cd1 t t3] assms h by simp
    show "fst (cooldown_check admins cd uid t) = Proceed
            \<and> (\<exists>remaining. fst (cooldown_check admins
                      (snd (cooldown_check admins cd uid t)) uid t2) = CooldownActive remaining)
            \<and> fst (cooldown_check admins
                      (snd (cooldown_check admins
                         (snd (cooldown_check admins cd uid t)) uid t2)) uid t3) = Proceed"
      by (simp add: a b c)
  qed
  from 1 2 3 show ?thesis by (intro conjI)
qed

theorem cooldown_window_enforced_witness:
  "\<not> is_admin [1, 2] 42
   \<and> cooldown_check [1, 2] Map.empty 42 100 = (Proceed, [cooldown_key 42 \<mapsto> 100])
   \<and> fst (cooldown_check [1, 2] [cooldown_key 42 \<mapsto> 100] 42 100) = CooldownActive 30
   \<and> snd (cooldown_check [1, 2] [cooldown_key 42 \<mapsto> 100] 42 100) = [cooldown_key 42 \<mapsto> 100]
   \<and> fst (cooldown_check [1, 2] [cooldown_key 42 \<mapsto> 100] 42 130) = Proceed
   \<and> fst (cooldown_check [1, 2]
            (snd (cooldown_check [1, 2]
               (snd (cooldown_check [1, 2] Map.empty 42 100)) 42 100)) 42 130) = Proceed"
proof -
  have na: "\<not> is_admin [1, 2] 42" by (simp add: is_admin_def)
  note g = cooldown_window_enforced [OF na]
  have a: "cooldown_check [1, 2] Map.empty 42 100 = (Proceed, [cooldown_key 42 \<mapsto> 100])"
    using g [of Map.empty 100] by simp
  have b: "snd (cooldown_check [1, 2] [cooldown_key 42 \<mapsto> 100] 42 100) = [cooldown_key 42 \<mapsto> 100]"
    using g [of "[cooldown_key 42 \<mapsto> 100]" 100] by simp
  have b': "fst (cooldown_check [1, 2] [cooldown_key 42 \<mapsto> 100] 42 100) = CooldownActive 30"
    using na by (simp add: cooldown_check_def py_int_def)
  have c: "fst (cooldown_check [1, 2] [cooldown_key 42 \<mapsto> 100] 42 130) = Proceed"
    using g [of "[cooldown_key 42 \<mapsto> 100]" 130] by simp
  have pre: "(None :: real option) = None \<and> (100::real) \<le> 100 \<and> (100::real) < 100 + 30
             \<and> (100::real) + 30 \<le> 130"
    by simp
  have e: "fst (cooldown_check [1, 2]
            (snd (cooldown_check [1, 2]
               (snd (cooldown_check [1, 2] Map.empty 42 100)) 42 100)) 42 130) = Proceed"
    using g [of Map.empty 100 100 100 130] pre by blast
  from na a b b' c e show ?thesis by (intro conjI)
qed

lemma cooldown_check_admin:
  assumes "is_admin admins uid"
  shows "cooldown_check admins cd uid now = (Proceed, cd)"
  using assms by (simp add: cooldown_check_def)

lemma spawn_handler_admin:
  assumes "is_admin (he_admin_ids env) uid"
  shows "spawn_handler env b0 uid chat =
     (let b = b0\<lparr>sched := register_channel chat (sched b0)\<rparr>
      in case RawSQL_get_active_spawn (he_get env) (fast b) chat of
           (Some active, f1) \<Rightarrow> (WildSpotted active, b\<lparr>fast := f1\<rparr>)
         | (None, f1) \<Rightarrow>
             (case RawSQL_create_spawn (he_create env) f1 chat of
                (False, f2) \<Rightarrow> (SpawnFailed, b\<lparr>fast := f2\<rparr>)
              | (True, f2) \<Rightarrow>
                  (case RawSQL_get_active_spawn (he_get_created env) f2 chat of
                     (None, f3) \<Rightarrow> (SpawnCreationError, b\<lparr>fast := f3\<rparr>)
                   | (Some spawn, f3) \<Rightarrow> (SpawnedReply spawn, b\<lparr>fast := f3\<rparr>))))"
  by (simp add: spawn_handler_def Let_def cooldown_check_admin [OF assms]
      split: prod.splits option.splits bool.splits)

text \<open>
  C10 (admin cooldown bypass). For a user whose id is in \<open>ADMIN_IDS\<close>, whatever the
  cooldown map holds, the cooldown step lets the request through and leaves the map as it
  was; so \<open>spawn_handler\<close> never answers such a user with the cooldown message, and
  the cooldown map after the handler is the one before it.
\<close>

theorem admin_bypasses_cooldown:
  assumes "is_admin (he_admin_ids env) uid"
  shows "cooldown_check (he_admin_ids env) cd uid (he_time env) = (Proceed, cd)
       \<and> (\<forall>remaining. fst (spawn_handler env b uid chat) \<noteq> CooldownReply remaining)
       \<and> cooldowns (snd (spawn_handler env b uid chat)) = cooldowns b"
proof -
  have 1: "cooldown_check (he_admin_ids env) cd uid (he_time env) = (Proceed, cd)"
    using assms by (rule cooldown_check_admin)
  have 2: "\<forall>remaining. fst (spawn_handler env b uid chat) \<noteq> CooldownReply remaining"
    by (simp add: spawn_handler_admin [OF assms] Let_def
        split: prod.splits option.splits bool.splits)
  have 3: "cooldowns (snd (spawn_handler env b uid chat)) = cooldowns b"
    by (simp add: spawn_handler_admin [OF assms] Let_def
        split: prod.splits option.splits bool.splits)
  from 1 2 3 show ?thesis by (intro conjI)
qed

theorem admin_bypasses_cooldown_witness:
  "is_admin (he_admin_ids (request [1, 2] 100)) 1
   \<and> cooldown_check [1, 2] [cooldown_key 1 \<mapsto> 95] 1 100 = (Proceed, [cooldown_key 1 \<mapsto> 95])
   \<and> fst (spawn_handler (request [1, 2] 100)
            (quiet_bot\<lparr>cooldowns := [cooldown_key 1 \<mapsto> 95]\<rparr>) 1 7) \<noteq> CooldownReply 25
   \<and> cooldowns (snd (spawn_handler (request [1, 2] 100)
            (quiet_bot\<lparr>cooldowns := [cooldown_key 1 \<mapsto> 95]\<rparr>) 1 7))
       = [cooldown_key 1 \<mapsto> 95]"
proof -
  have adm: "is_admin (he_admin_ids (request [1, 2] 100)) 1"
    by (simp add: is_admin_def request_def)
  have t: "he_admin_ids (request [1, 2] 100) = [1, 2]" "he_time (request [1, 2] 100) = 100"
    "cooldowns (quiet_bot\<lparr>cooldowns := [cooldown_key 1 \<mapsto> 95]\<rparr>) = [cooldown_key 1 \<mapsto> 95]"
    by (simp_all add: request_def)
  from admin_bypasses_cooldown [OF adm, of "[cooldown_key 1 \<mapsto> 95]"
      "quiet_bot\<lparr>cooldowns := [cooldown_key 1 \<mapsto> 95]\<rparr>" 7]
  show ?thesis using adm unfolding t by blast
qed

subsection \<open>The scheduler loop\<close>

lemma spawn_iteration_sched:
  "sched (snd (spawn_iteration e b)) = sched b"
  by (simp add: spawn_iteration_def split: prod.splits)

lemma spawn_iteration_one_sleep:
  "length (filter is_sleep (fst (spawn_iteration e b))) = 1"
  by (simp add: spawn_iteration_def split: prod.splits)

lemma spawn_iteration_raises:
  assumes "active_channels (sched b) \<noteq> {}" and "le_raises e"
  shows "spawn_iteration e b = ([LogLoopError, Sleep 10], b)"
  using assms by (simp add: spawn_iteration_def)

lemma spawn_iteration_store_down:
  assumes "active_channels (sched b) \<noteq> {}" and "\<not> le_raises e"
    and "\<not> fc_db_up (le_create e)"
  shows "spawn_iteration e b = ([Sleep (le_interval e)], b)"
  using assms by (simp add: spawn_iteration_def RawSQL_create_spawn_def)

lemma spawn_loop_step:
  assumes "running (sched b)" and "\<not> le_cancelled e"
  shows "spawn_loop (e # es) b =
           (fst (spawn_iteration e b) @ fst (spawn_loop es (snd (spawn_iteration e b))),
            snd (spawn_loop es (snd (spawn_iteration e b))))"
  using assms by (simp split: prod.splits)

lemma spawn_loop_goes_on:
  assumes "running (sched b)" and "\<forall>e\<in>set es. \<not> le_cancelled e"
  shows "fst (snd (spawn_loop es b)) = Continuing
       \<and> length (filter is_sleep (fst (spawn_loop es b))) = length es"
  using assms
proof (induction es arbitrary: b)
  case Nil
  then show ?case by simp
next
  case (Cons e es)
  let ?b1 = "snd (spawn_iteration e b)"
  have r: "running (sched ?b1)"
    using Cons.prems(1) by (simp add: spawn_iteration_sched)
  have c: "\<forall>e\<in>set es. \<not> le_cancelled e"
    using Cons.prems(2) by simp
  have nc: "\<not> le_cancelled e"
    using Cons.prems(2) by simp
  note ih = Cons.IH [OF r c]
  note step = spawn_loop_step [OF Cons.prems(1) nc, of es]
  show ?case
    unfolding step using ih spawn_iteration_one_sleep [of e b] by simp
qed

text \<open>
  C9 (scheduler loop resilience), as the code has it. While \<open>running\<close> is set and the loop's asyncio
  task is not cancelled, no pass ends the loop: after any number of passes the loop is about to make
  another, and each pass has slept exactly once. A pass whose body raises an exception is
  caught at the loop boundary: the error is logged and the pass sleeps 10 seconds. A
  failing store call in \<open>create_spawn\<close> never reaches the loop boundary: \<open>create_spawn\<close>
  catches it and returns \<open>False\<close>, and the pass ends with its ordinary sleep of the drawn
  interval. In both cases the state is unchanged and the loop goes on with its next pass.
\<close>

theorem failed_pass_keeps_loop_running:
  assumes "running (sched b)" and "\<forall>e\<in>set es. \<not> le_cancelled e"
  shows "fst (snd (spawn_loop es b)) = Continuing
       \<and> length (filter is_sleep (fst (spawn_loop es b))) = length es
       \<and> (active_channels (sched b) \<noteq> {} \<and> le_raises e
            \<longrightarrow> spawn_iteration e b = ([LogLoopError, Sleep 10], b))
       \<and> (active_channels (sched b) \<noteq> {} \<and> \<not> le_raises e \<and> \<not> fc_db_up (le_create e)
            \<longrightarrow> spawn_iteration e b = ([Sleep (le_interval e)], b))
       \<and> (\<not> le_cancelled e
            \<longrightarrow> spawn_loop (e # es) b =
                  (fst (spawn_iteration e b) @ fst (spawn_loop es (snd (spawn_iteration e b))),
                   snd (spawn_loop es (snd (spawn_iteration e b)))))"
  using spawn_loop_goes_on [OF assms] spawn_iteration_raises [of b e]
    spawn_iteration_store_down [of b e] spawn_loop_step [OF assms(1), of e es]
  by blast

theorem failed_pass_keeps_loop_running_witness:
  "running (sched listening_bot)
   \<and> fst (snd (spawn_loop [pass True True, pass False False] listening_bot)) = Continuing
   \<and> spawn_iteration (pass True True) listening_bot = ([LogLoopError, Sleep 10], listening_bot)
   \<and> spawn_iteration (pass False False) listening_bot = ([Sleep 45], listening_bot)
   \<and> fst (spawn_loop [pass True True, pass False False] listening_bot)
       = [LogLoopError, Sleep 10, Sleep 45]"
proof -
  have r: "running (sched listening_bot)"
    by (simp add: listening_bot_def)
  have nc: "\<forall>e\<in>set [pass True True, pass False False]. \<not> le_cancelled e"
    "\<forall>e\<in>set [pass False False]. \<not> le_cancelled e"
    "\<forall>e\<in>set []. \<not> le_cancelled e"
    by (simp_all add: pass_def)
  have p: "active_channels (sched listening_bot) \<noteq> {} \<and> le_raises (pass True True)"
    "active_channels (sched listening_bot) \<noteq> {} \<and> \<not> le_raises (pass False False)
       \<and> \<not> fc_db_up (le_create (pass False False))"
    "\<not> le_cancelled (pass True True)" "\<not> le_cancelled (pass False False)"
    "le_interval (pass False False) = 45"
    by (simp_all add: listening_bot_def pass_def)
  from failed_pass_keeps_loop_running [OF r nc(1), of "pass True True"] p
  have a: "fst (snd (spawn_loop [pass True True, pass False False] listening_bot)) = Continuing"
    "spawn_iteration (pass True True) listening_bot = ([LogLoopError, Sleep 10], listening_bot)"
    by blast+
  from failed_pass_keeps_loop_running [OF r nc(2), of "pass False False"] p
  have b: "spawn_iteration (pass False False) listening_bot = ([Sleep 45], listening_bot)"
    by simp
  from failed_pass_keeps_loop_running [OF r nc(2), of "pass True True"] p
  have s1: "spawn_loop [pass True True, pass False False] listening_bot =
     (fst (spawn_iteration (pass True True) listening_bot)
        @ fst (spawn_loop [pass False False] (snd (spawn_iteration (pass True True) listening_bot))),
      snd (spawn_loop [pass False False] (snd (spawn_iteration (pass True True) listening_bot))))"
    by blast
  from failed_pass_keeps_loop_running [OF r nc(3), of "pass False False"] p
  have s2: "spawn_loop [pass False False] listening_bot =
     (fst (spawn_iteration (pass False False) listening_bot)
        @ fst (spawn_loop [] (snd (spawn_iteration (pass False False) listening_bot))),
      snd (spawn_loop [] (snd (spawn_iteration (pass False False) listening_bot))))"
    by blast
  have c: "fst (spawn_loop [pass True True, pass False False] listening_bot)
       = [LogLoopError, Sleep 10, Sleep 45]"
    by (simp del: spawn_loop.simps add: s1 a(2) s2 b spawn_loop.simps(1))
  from r a b c show ?thesis by (intro conjI)
qed

text \<open>
  C9 as stated fails on its own example. With chat 7 registered and the store
  down, \<open>create_spawn\<close> returns \<open>False\<close> without raising; the pass logs no loop error and
  sleeps the drawn 45 seconds, not the 10 seconds of the loop's \<^verbatim>\<open>except\<close> branch.
\<close>

theorem store_failure_not_caught_at_loop_boundary:
  "\<not> fc_db_up (le_create (pass False False))
   \<and> RawSQL_create_spawn (le_create (pass False False)) (fast listening_bot) 7
       = (False, fast listening_bot)
   \<and> spawn_iteration (pass False False) listening_bot = ([Sleep 45], listening_bot)
   \<and> LogLoopError \<notin> set (fst (spawn_iteration (pass False False) listening_bot))
   \<and> Sleep 10 \<notin> set (fst (spawn_iteration (pass False False) listening_bot))"
  by (simp add: spawn_iteration_def RawSQL_create_spawn_def pass_def listening_bot_def)

end
